theory Spec2Isabelle
  imports Main "HOL-Library.Sublist"
begin

section \<open>Go strings\<close>

text \<open>
  Go strings are byte strings; they are modelled as \<open>string\<close> (lists of \<open>char\<close>).
  \<open>strings_Cut s sep\<close> splits \<open>s\<close> around the first occurrence of \<open>sep\<close>
  (what \<open>strings.Index\<close> locates); \<open>strings.Contains\<close> and \<open>strings.Replace\<close> are
  expressed with it.
\<close>

fun strings_Cut :: "string \<Rightarrow> string \<Rightarrow> (string \<times> string) option" where
  "strings_Cut [] sep = (if sep = [] then Some ([], []) else None)"
| "strings_Cut (c # cs) sep =
     (if prefix sep (c # cs) then Some ([], drop (length sep) (c # cs))
      else (case strings_Cut cs sep of
              None \<Rightarrow> None
            | Some (b, a) \<Rightarrow> Some (c # b, a)))"

definition strings_Contains :: "string \<Rightarrow> string \<Rightarrow> bool" where
  "strings_Contains s substr = (strings_Cut s substr \<noteq> None)"

text \<open>
  \<open>strings.Replace(s, old, new, n)\<close>: the first \<open>n\<close> non-overlapping occurrences of
  \<open>old\<close> are replaced, all of them when \<open>n < 0\<close>. Both call sites of the provider pass a
  non-empty constant for \<open>old\<close> (\<open>"~"\<close> and \<open>"<local_port>"\<close>); Go's insertion at every
  rune boundary for an empty \<open>old\<close> is not modelled, the string is returned as it is.
\<close>

function strings_Replace :: "string \<Rightarrow> string \<Rightarrow> string \<Rightarrow> int \<Rightarrow> string" where
  "strings_Replace s old new n =
     (if n = 0 \<or> old = [] then s
      else (case strings_Cut s old of
              None \<Rightarrow> s
            | Some (b, a) \<Rightarrow> b @ new @ strings_Replace a old new (n - 1)))"
  by pat_completeness auto
termination strings_Replace
proof (relation "measure (\<lambda>(s, old, new, n). length s)")
  show "wf (measure (\<lambda>(s, old, new, n). length s))" by simp
next
  fix s old new :: string and n :: int and x2 :: "string \<times> string" and b a :: string
  assume "\<not> (n = 0 \<or> old = [])" and "strings_Cut s old = Some x2" and "(b, a) = x2"
  then have cut: "strings_Cut s old = Some (b, a)" and old: "old \<noteq> []" by simp_all
  have len: "strings_Cut t old = Some (u, a) \<Longrightarrow> length t = length u + length old + length a"
    for t u
  proof (induction t arbitrary: u)
    case Nil
    then show ?case by (simp split: if_splits)
  next
    case (Cons c cs)
    show ?case
    proof (cases "prefix old (c # cs)")
      case True
      then have "length old \<le> length (c # cs)" by (rule prefix_length_le)
      with True Cons.prems show ?thesis by auto
    next
      case False
      with Cons.prems obtain u' where "strings_Cut cs old = Some (u', a)" and "u = c # u'"
        by (auto split: option.splits)
      with Cons.IH [of u'] show ?thesis by simp
    qed
  qed
  from len [OF cut] old have "length a < length s" by simp
  then show "((a, old, new, n - 1), (s, old, new, n)) \<in> measure (\<lambda>(s, old, new, n). length s)"
    by simp
qed

declare strings_Replace.simps [simp del]

section \<open>Diagnostics, results and the trace of external calls\<close>

text \<open>\<open>diag.Errorf(msg)\<close> and \<open>diag.FromErr(err)\<close>, the error carried by its message.\<close>

datatype diag = Errorf string | FromErr string

text \<open>
  A run that does not return: a Go panic, or the failure of the tunnel, which the spec
  makes fatal for the operation (5: a failed tunnel start fails the entire CRUD call
  immediately) and which no operation can observe otherwise, since each calls
  \<open>tryPortForwardIfNeeded\<close> as a statement and reads no result.
\<close>

datatype tunnel_error =
  ConfigurationError | TunnelStartError | TunnelTimeoutError | RemoteUnreachableError

datatype panic =
  InterfaceConversion | NilPointerDereference | CloseOfClosedChannel | TunnelFailure tunnel_error

datatype 'a result = Ok 'a | Fail diag | Panic panic

text \<open>
  The calls a run makes on the world outside the provider, in the order they happen.
  \<open>EvListen\<close> (a local listener is bound) and \<open>EvReady\<close> (the readiness signal fires) are
  the tunnel's; \<open>EvCloseStop\<close> is \<open>close(stopCh)\<close>.
\<close>

datatype event =
    EvBuildConfigFromFlags string
  | EvNewForConfig
  | EvListen string
  | EvReady
  | EvConnect string
  | EvPing
  | EvExec string
  | EvQuery string
  | EvQueryRow string string
  | EvCloseStop

section \<open>The provider: constants, schema, client\<close>

definition argDns :: string where "argDns = ''dns''"
definition argUsername :: string where "argUsername = ''username''"
definition argPassword :: string where "argPassword = ''password''"
definition argKubeConfig :: string where "argKubeConfig = ''kube_config''"
definition argKubeConfigPath :: string where "argKubeConfigPath = ''kube_config_path''"
definition argNamespace :: string where "argNamespace = ''namespace''"
definition argServiceName :: string where "argServiceName = ''service_name''"
definition argLocalPort :: string where "argLocalPort = ''local_port''"
definition argRemotePort :: string where "argRemotePort = ''remote_port''"

lemmas arg_defs = argDns_def argUsername_def argPassword_def argKubeConfig_def
  argKubeConfigPath_def argNamespace_def argServiceName_def argLocalPort_def argRemotePort_def

text \<open>
  A \<open>schema.Schema\<close> entry, with the fields the provider sets: \<open>Type\<close>, \<open>Required\<close>,
  \<open>Optional\<close>, \<open>Computed\<close>, \<open>ForceNew\<close>, \<open>Sensitive\<close> and \<open>Default\<close> (\<open>None\<close> when the
  entry declares none). Values of type \<open>interface{}\<close> are \<open>val\<close>; \<open>VNil\<close> is \<open>nil\<close>.
\<close>

datatype val = VNil | VString string | VBool bool | VList "val list" | VMap "(string \<times> val) list"

datatype schema_type = TypeString | TypeBool | TypeList

record schema_attr =
  Type :: schema_type
  Required :: bool
  Optional :: bool
  Computed :: bool
  ForceNew :: bool
  Sensitive :: bool
  Default :: "val option"

definition attr :: "schema_type \<Rightarrow> schema_attr" where
  "attr t = \<lparr>Type = t, Required = False, Optional = False, Computed = False,
             ForceNew = False, Sensitive = False, Default = None\<rparr>"

definition kubeConfigSchema :: "(string \<times> schema_attr) list" where
  "kubeConfigSchema =
     [(argKubeConfigPath, (attr TypeString)\<lparr>Optional := True, Default := Some (VString ''~/.kube/config'')\<rparr>),
      (argNamespace, (attr TypeString)\<lparr>Optional := True\<rparr>),
      (argServiceName, (attr TypeString)\<lparr>Optional := True\<rparr>),
      (argRemotePort, (attr TypeString)\<lparr>Optional := True, Default := Some (VString ''26257'')\<rparr>)]"

definition providerSchema :: "(string \<times> schema_attr) list" where
  "providerSchema =
     [(argDns, (attr TypeString)\<lparr>Optional := True\<rparr>),
      (argUsername, (attr TypeString)\<lparr>Required := True\<rparr>),
      (argPassword, (attr TypeString)\<lparr>Required := True\<rparr>),
      (argKubeConfig, (attr TypeList)\<lparr>Optional := True\<rparr>)]"

text \<open>
  \<open>kubeConn\<close> and \<open>cockroachClient\<close>. The two pointers of \<open>kubeConn\<close> are \<open>None\<close> when
  \<open>nil\<close>; what they point to is opaque to the provider and stands as a number.
\<close>

type_synonym rest_Config = nat
type_synonym Clientset = nat

record kubeConn =
  configPath :: string
  nameSpace :: string
  serviceName :: string
  remotePort :: string
  kubeConfig :: "rest_Config option"
  kubeClient :: "Clientset option"

record cockroachClient =
  dns :: string
  username :: string
  password :: string
  kubeConn :: kubeConn

text \<open>The zero value \<open>&cockroachClient{}\<close>.\<close>

definition zero_client :: cockroachClient where
  "zero_client =
     \<lparr>dns = [], username = [], password = [],
      kubeConn = \<lparr>configPath = [], nameSpace = [], serviceName = [], remotePort = [],
                  kubeConfig = None, kubeClient = None\<rparr>\<rparr>"

section \<open>The world outside\<close>

text \<open>
  What the provider cannot decide is a parameter: the environment variable \<open>HOME\<close>, the
  Kubernetes client library (\<open>Inl\<close> is the error it returns), the tunnel, the SQL server
  behind \<open>pgx\<close>, and the errors of \<open>d.Set\<close>.
\<close>

datatype forward = ForwardReady | ForwardBindError | ForwardNoReady

record 'row rows =
  scans :: "(string + 'row) list"
  rows_Err :: "string option"

record env =
  getenv_HOME :: string
  BuildConfigFromFlags :: "string \<Rightarrow> string + rest_Config"
  NewForConfig :: "rest_Config \<Rightarrow> string + Clientset"
  resolve_pod :: "string \<Rightarrow> string \<Rightarrow> string option"
  port_forward :: "string \<Rightarrow> string \<Rightarrow> string \<Rightarrow> forward"
  pgx_connect :: "string \<Rightarrow> string option"
  conn_ping :: "string option"
  conn_exec :: "string \<Rightarrow> string option"
  scan_id :: "string \<Rightarrow> string \<Rightarrow> string + int"
  scan_id_owner :: "string \<Rightarrow> string \<Rightarrow> string + (int \<times> string)"
  scan_schedule :: "string \<Rightarrow> string \<Rightarrow> string + (string \<times> string)"
  query_databases :: "string \<Rightarrow> string + (string \<times> string \<times> string option \<times> string list \<times> string option) rows"
  query_users :: "string \<Rightarrow> string + (string \<times> string \<times> string list) rows"
  set_error :: "string \<Rightarrow> string option"

section \<open>Provider configuration\<close>

text \<open>
  The provider's \<open>ResourceData\<close>: the configured values of the four attributes of
  \<open>providerSchema\<close> (a string that is not configured reads as the empty string, a block's
  attribute as its default), read by key. \<open>Get\<close> returns \<open>nil\<close> for a key that is not in
  the schema.
\<close>

record kube_block =
  kb_kube_config_path :: string
  kb_namespace :: string
  kb_service_name :: string
  kb_remote_port :: string

record provider_data =
  pd_dns :: string
  pd_username :: string
  pd_password :: string
  pd_kube_config :: "kube_block list"

definition kube_block_map :: "kube_block \<Rightarrow> val" where
  "kube_block_map kb =
     VMap [(argKubeConfigPath, VString (kb_kube_config_path kb)),
           (argNamespace, VString (kb_namespace kb)),
           (argServiceName, VString (kb_service_name kb)),
           (argRemotePort, VString (kb_remote_port kb))]"

definition Get :: "provider_data \<Rightarrow> string \<Rightarrow> val" where
  "Get d key =
     (if key = argDns then VString (pd_dns d)
      else if key = argUsername then VString (pd_username d)
      else if key = argPassword then VString (pd_password d)
      else if key = argKubeConfig then VList (map kube_block_map (pd_kube_config d))
      else VNil)"

text \<open>Type assertions \<open>v.(string)\<close>, \<open>v.([]interface{})\<close>, \<open>v.(map[string]interface{})\<close>
  (\<open>None\<close>: the assertion panics) and the index \<open>m[key]\<close> of a map (\<open>nil\<close> when absent).\<close>

fun assert_string :: "val \<Rightarrow> string option" where
  "assert_string (VString s) = Some s"
| "assert_string _ = None"

fun assert_list :: "val \<Rightarrow> val list option" where
  "assert_list (VList vs) = Some vs"
| "assert_list _ = None"

fun assert_map :: "val \<Rightarrow> (string \<times> val) list option" where
  "assert_map (VMap m) = Some m"
| "assert_map _ = None"

definition map_index :: "(string \<times> val) list \<Rightarrow> string \<Rightarrow> val" where
  "map_index m key = (case map_of m key of None \<Rightarrow> VNil | Some v \<Rightarrow> v)"

definition homeDir :: "env \<Rightarrow> string + string" where
  "homeDir env =
     (if getenv_HOME env \<noteq> [] then Inr (getenv_HOME env)
      else Inl ''unable to get HOME directory'')"

text \<open>
  \<open>configure\<close>, with the trace of the library calls it makes. The last branch reads the
  key \<open>"argDns"\<close>, a string literal in the source, where the schema's key is the constant
  \<open>argDns = "dns"\<close>.
\<close>

definition configure :: "env \<Rightarrow> provider_data \<Rightarrow> event list \<times> cockroachClient result" where
  "configure env d =
     (case assert_string (Get d argUsername) of
        None \<Rightarrow> ([], Panic InterfaceConversion)
      | Some u \<Rightarrow>
     (case assert_string (Get d argPassword) of
        None \<Rightarrow> ([], Panic InterfaceConversion)
      | Some p \<Rightarrow>
     (let a = zero_client\<lparr>username := u, password := p\<rparr>;
          finish = (\<lambda>tr a. if dns a = [] then (tr, Fail (Errorf ''argument 'argDns' is required''))
                            else (tr, Ok a))
      in
      if username a = [] then ([], Fail (Errorf ''database username can't be an empty string''))
      else if password a = [] then ([], Fail (Errorf ''database password can't be an empty string''))
      else
     (case assert_list (Get d argKubeConfig) of
        None \<Rightarrow> ([], Panic InterfaceConversion)
      | Some k \<Rightarrow>
      if length k > 0 then
       (case assert_map (k ! 0) of
          None \<Rightarrow> ([], Panic InterfaceConversion)
        | Some kc \<Rightarrow>
       (case assert_string (map_index kc argKubeConfigPath) of
          None \<Rightarrow> ([], Panic InterfaceConversion)
        | Some path0 \<Rightarrow>
       (case (if strings_Contains path0 ''~''
              then (case homeDir env of
                      Inl err \<Rightarrow> Inl err
                    | Inr h \<Rightarrow> Inr (strings_Replace path0 ''~'' h (- 1)))
              else Inr path0) of
          Inl err \<Rightarrow> ([], Fail (FromErr err))
        | Inr path \<Rightarrow>
       (let tr1 = [EvBuildConfigFromFlags path] in
        case BuildConfigFromFlags env path of
          Inl err \<Rightarrow> (tr1, Fail (FromErr err))
        | Inr kcfg \<Rightarrow>
       (let a1 = a\<lparr>kubeConn := (kubeConn a)\<lparr>kubeConfig := Some kcfg\<rparr>\<rparr>;
            tr2 = tr1 @ [EvNewForConfig] in
        case NewForConfig env kcfg of
          Inl err \<Rightarrow> (tr2, Fail (FromErr err))
        | Inr kcl \<Rightarrow>
       (let a2 = a1\<lparr>kubeConn := (kubeConn a1)\<lparr>kubeClient := Some kcl\<rparr>\<rparr> in
        case assert_string (map_index kc argNamespace) of
          None \<Rightarrow> (tr2, Panic InterfaceConversion)
        | Some namespace \<Rightarrow>
        if namespace = [] then (tr2, Fail (Errorf ''Cockroachdb namespace is not specified''))
        else
       (let a3 = a2\<lparr>kubeConn := (kubeConn a2)\<lparr>nameSpace := namespace\<rparr>\<rparr> in
        case assert_string (map_index kc argServiceName) of
          None \<Rightarrow> (tr2, Panic InterfaceConversion)
        | Some service \<Rightarrow>
        if service = [] then (tr2, Fail (Errorf ''Cockroachdb service name is not specified''))
        else
       (let a4 = a3\<lparr>kubeConn := (kubeConn a3)\<lparr>serviceName := service\<rparr>\<rparr> in
        case assert_string (map_index kc argRemotePort) of
          None \<Rightarrow> (tr2, Panic InterfaceConversion)
        | Some rp \<Rightarrow>
       (let a5 = a4\<lparr>kubeConn := (kubeConn a4)\<lparr>remotePort := rp\<rparr>\<rparr>;
            a6 = a5\<lparr>dns := ''postgresql://'' @ username a5 @ '':'' @ password a5
                              @ ''@localhost:<local_port>/system?sslmode=disable''\<rparr>
        in finish tr2 a6)))))))))
      else
       (case assert_string (Get d ''argDns'') of
          None \<Rightarrow> ([], Panic InterfaceConversion)
        | Some u' \<Rightarrow> finish [] (if u' \<noteq> [] then a\<lparr>dns := u'\<rparr> else a))))))"

section \<open>Resource data, channels and the state of one operation\<close>

text \<open>
  The \<open>ResourceData\<close> of a resource or data source. Every key the operations read is
  declared in the schema of its resource with the type the operation asserts, so the
  reads are typed: \<open>rd_cur\<close> is what \<open>d.Get\<close> returns and \<open>d.Set\<close> writes, \<open>rd_old\<close> and
  \<open>rd_new\<close> are the two values of \<open>d.GetChange\<close>, \<open>rd_id\<close> is \<open>d.Id()\<close>.
\<close>

record attrs =
  strs :: "string \<Rightarrow> string"
  bools :: "string \<Rightarrow> bool"
  lists :: "string \<Rightarrow> string list"

record ResourceData =
  rd_cur :: attrs
  rd_old :: attrs
  rd_new :: attrs
  rd_id :: string
  rd_partial :: bool

definition get_string :: "ResourceData \<Rightarrow> string \<Rightarrow> string" where
  "get_string d key = strs (rd_cur d) key"

definition get_bool :: "ResourceData \<Rightarrow> string \<Rightarrow> bool" where
  "get_bool d key = bools (rd_cur d) key"

definition get_list :: "ResourceData \<Rightarrow> string \<Rightarrow> string list" where
  "get_list d key = lists (rd_cur d) key"

definition HasChange :: "ResourceData \<Rightarrow> string \<Rightarrow> bool" where
  "HasChange d key =
     (strs (rd_old d) key \<noteq> strs (rd_new d) key
      \<or> bools (rd_old d) key \<noteq> bools (rd_new d) key
      \<or> lists (rd_old d) key \<noteq> lists (rd_new d) key)"

text \<open>
  \<open>convertToString\<close> and \<open>contains\<close> are helpers of the provider that are not among the
  sources; by their uses the first turns a \<open>[]interface{}\<close> of strings into a \<open>[]string\<close>
  and the second tests membership.
\<close>

definition convertToString :: "string list \<Rightarrow> string list" where
  "convertToString xs = xs"

definition contains :: "string list \<Rightarrow> string \<Rightarrow> bool" where
  "contains xs x = (x \<in> set xs)"

text \<open>A Go channel that has been made: open or closed. \<open>close\<close> of a closed channel
  panics (\<open>None\<close>); it never blocks.\<close>

datatype chan = ChOpen | ChClosed

fun close_chan :: "chan \<Rightarrow> chan option" where
  "close_chan ChOpen = Some ChClosed"
| "close_chan ChClosed = None"

text \<open>
  The state of one operation: the trace, the two channels (\<open>None\<close> before \<open>make\<close>), the
  local port on which the operation's tunnel listens (\<open>None\<close>: no listener) and the
  resource data.
\<close>

record state =
  trace :: "event list"
  stopCh :: "chan option"
  readyCh :: "chan option"
  listener :: "string option"
  rd :: ResourceData

definition init :: "ResourceData \<Rightarrow> state" where
  "init d = \<lparr>trace = [], stopCh = None, readyCh = None, listener = None, rd = d\<rparr>"

definition emit :: "event \<Rightarrow> state \<Rightarrow> state" where
  "emit e s = s\<lparr>trace := trace s @ [e]\<rparr>"

definition make_chans :: "state \<Rightarrow> state" where
  "make_chans s = s\<lparr>stopCh := Some ChOpen, readyCh := Some ChOpen\<rparr>"

text \<open>\<open>close(stopCh)\<close>. Modelled from the spec: the reaction of the tunnel, which is not
  among the sources; on the stop signal it closes its local listener (4.2).\<close>

definition close_stopCh :: "state \<Rightarrow> state option" where
  "close_stopCh s =
     (case stopCh s of
        None \<Rightarrow> None
      | Some c \<Rightarrow>
          (case close_chan c of
             None \<Rightarrow> None
           | Some c' \<Rightarrow> Some ((emit EvCloseStop s)\<lparr>stopCh := Some c', listener := None\<rparr>)))"

definition SetId :: "string \<Rightarrow> state \<Rightarrow> state" where
  "SetId v s = s\<lparr>rd := (rd s)\<lparr>rd_id := v\<rparr>\<rparr>"

definition Partial :: "bool \<Rightarrow> state \<Rightarrow> state" where
  "Partial b s = s\<lparr>rd := (rd s)\<lparr>rd_partial := b\<rparr>\<rparr>"

definition Set_string :: "env \<Rightarrow> string \<Rightarrow> string \<Rightarrow> state \<Rightarrow> state \<times> string option" where
  "Set_string env key v s =
     (case set_error env key of
        Some err \<Rightarrow> (s, Some err)
      | None \<Rightarrow>
          (s\<lparr>rd := (rd s)\<lparr>rd_cur := (rd_cur (rd s))\<lparr>strs := (strs (rd_cur (rd s)))(key := v)\<rparr>\<rparr>\<rparr>, None))"

definition Set_bool :: "env \<Rightarrow> string \<Rightarrow> bool \<Rightarrow> state \<Rightarrow> state \<times> string option" where
  "Set_bool env key v s =
     (case set_error env key of
        Some err \<Rightarrow> (s, Some err)
      | None \<Rightarrow>
          (s\<lparr>rd := (rd s)\<lparr>rd_cur := (rd_cur (rd s))\<lparr>bools := (bools (rd_cur (rd s)))(key := v)\<rparr>\<rparr>\<rparr>, None))"

definition Set_list :: "env \<Rightarrow> string \<Rightarrow> string list \<Rightarrow> state \<Rightarrow> state \<times> string option" where
  "Set_list env key v s =
     (case set_error env key of
        Some err \<Rightarrow> (s, Some err)
      | None \<Rightarrow>
          (s\<lparr>rd := (rd s)\<lparr>rd_cur := (rd_cur (rd s))\<lparr>lists := (lists (rd_cur (rd s)))(key := v)\<rparr>\<rparr>\<rparr>, None))"

section \<open>The SQL client and identifier quoting\<close>

text \<open>
  \<open>pgx.Connect\<close> returns a connection and no error, or \<open>nil\<close> and an error. The methods
  of a connection record their call and answer as the server does.
\<close>

datatype pgx_Conn = Conn string

definition pgx_Connect :: "env \<Rightarrow> string \<Rightarrow> state \<Rightarrow> state \<times> (string + pgx_Conn)" where
  "pgx_Connect env connString s =
     (emit (EvConnect connString) s,
      case pgx_connect env connString of Some err \<Rightarrow> Inl err | None \<Rightarrow> Inr (Conn connString))"

definition Ping :: "env \<Rightarrow> pgx_Conn \<Rightarrow> state \<Rightarrow> state \<times> string option" where
  "Ping env conn s = (emit EvPing s, conn_ping env)"

definition Exec :: "env \<Rightarrow> pgx_Conn \<Rightarrow> string \<Rightarrow> state \<Rightarrow> state \<times> string option" where
  "Exec env conn sql s = (emit (EvExec sql) s, conn_exec env sql)"

text \<open>\<open>pq.QuoteIdentifier\<close>: the name up to its first zero byte, every double quote
  doubled, in double quotes.\<close>

definition QuoteIdentifier :: "string \<Rightarrow> string" where
  "QuoteIdentifier name =
     [CHR 0x22]
     @ strings_Replace (takeWhile (\<lambda>c. c \<noteq> CHR 0x00) name) [CHR 0x22] [CHR 0x22, CHR 0x22] (- 1)
     @ [CHR 0x22]"

text \<open>\<open>strconv.Itoa\<close>.\<close>

fun nat_dec :: "nat \<Rightarrow> string" where
  "nat_dec n =
     (if n < 10 then [char_of (48 + n)]
      else nat_dec (n div 10) @ [char_of (48 + n mod 10)])"

declare nat_dec.simps [simp del]

definition Itoa :: "int \<Rightarrow> string" where
  "Itoa i = (if i < 0 then CHR ''-'' # nat_dec (nat (- i)) else nat_dec (nat i))"

section \<open>The tunnel\<close>

text \<open>
  Modelled from the spec: \<open>tryPortForwardIfNeeded\<close> (the spec's \<open>acquireTunnel\<close>, 4.1),
  which every operation calls and whose definition is not among the sources. Without
  Kubernetes configuration it is a no-op. With it, namespace and service name are
  validated, a pod behind the service is resolved, the port-forward from the local port
  to the remote port is started and its readiness awaited: on success one listener is
  bound on the local port and the readiness signal has fired; otherwise it fails with
  the error kind of the spec.
\<close>

definition tryPortForwardIfNeeded ::
    "env \<Rightarrow> cockroachClient \<Rightarrow> string \<Rightarrow> state \<Rightarrow> state \<times> tunnel_error option" where
  "tryPortForwardIfNeeded env meta local_port s =
     (if kubeConfig (kubeConn meta) = None then (s, None)
      else if nameSpace (kubeConn meta) = [] \<or> serviceName (kubeConn meta) = []
        then (s, Some ConfigurationError)
      else (case resolve_pod env (nameSpace (kubeConn meta)) (serviceName (kubeConn meta)) of
              None \<Rightarrow> (s, Some RemoteUnreachableError)
            | Some pod \<Rightarrow>
                (case port_forward env pod local_port (remotePort (kubeConn meta)) of
                   ForwardBindError \<Rightarrow> (s, Some TunnelStartError)
                 | ForwardNoReady \<Rightarrow> (s, Some TunnelTimeoutError)
                 | ForwardReady \<Rightarrow>
                     ((emit EvReady (emit (EvListen local_port) s))
                        \<lparr>readyCh := Some ChClosed, listener := Some local_port\<rparr>, None))))"

definition QueryRow_id :: "env \<Rightarrow> pgx_Conn \<Rightarrow> string \<Rightarrow> string \<Rightarrow> state \<Rightarrow> state \<times> (string + int)" where
  "QueryRow_id env conn sql arg s = (emit (EvQueryRow sql arg) s, scan_id env sql arg)"

definition QueryRow_id_owner ::
    "env \<Rightarrow> pgx_Conn \<Rightarrow> string \<Rightarrow> string \<Rightarrow> state \<Rightarrow> state \<times> (string + (int \<times> string))" where
  "QueryRow_id_owner env conn sql arg s = (emit (EvQueryRow sql arg) s, scan_id_owner env sql arg)"

definition QueryRow_schedule ::
    "env \<Rightarrow> pgx_Conn \<Rightarrow> string \<Rightarrow> string \<Rightarrow> state \<Rightarrow> state \<times> (string + (string \<times> string))" where
  "QueryRow_schedule env conn sql arg s = (emit (EvQueryRow sql arg) s, scan_schedule env sql arg)"

type_synonym database_row = "string \<times> string \<times> string option \<times> string list \<times> string option"
type_synonym user_row = "string \<times> string \<times> string list"

definition Query_databases ::
    "env \<Rightarrow> pgx_Conn \<Rightarrow> string \<Rightarrow> state \<Rightarrow> state \<times> (string + database_row rows)" where
  "Query_databases env conn sql s = (emit (EvQuery sql) s, query_databases env sql)"

definition Query_users ::
    "env \<Rightarrow> pgx_Conn \<Rightarrow> string \<Rightarrow> state \<Rightarrow> state \<times> (string + user_row rows)" where
  "Query_users env conn sql s = (emit (EvQuery sql) s, query_users env sql)"

section \<open>cockroach\_database\<close>

definition dbNameAttr :: string where "dbNameAttr = ''name''"
definition dbOwnerAttr :: string where "dbOwnerAttr = ''owner''"
definition dbOptionsAttr :: string where "dbOptionsAttr = ''options''"
definition dbEncodingAttr :: string where "dbEncodingAttr = ''encoding''"
definition dbPrimaryRegionAttr :: string where "dbPrimaryRegionAttr = ''primary_region''"
definition dbRegionsAttr :: string where "dbRegionsAttr = ''regions''"

lemmas db_defs = dbNameAttr_def dbOwnerAttr_def dbOptionsAttr_def dbEncodingAttr_def
  dbPrimaryRegionAttr_def dbRegionsAttr_def

definition resourceDatabase :: "(string \<times> schema_attr) list" where
  "resourceDatabase =
     [(dbNameAttr, (attr TypeString)\<lparr>Required := True\<rparr>),
      (dbOwnerAttr, (attr TypeString)\<lparr>Optional := True, Default := Some (VString [])\<rparr>),
      (dbEncodingAttr, (attr TypeString)\<lparr>Optional := True, Default := Some (VString [])\<rparr>),
      (dbPrimaryRegionAttr, (attr TypeString)\<lparr>Optional := True, Default := Some (VString [])\<rparr>),
      (dbRegionsAttr, (attr TypeList)\<lparr>Optional := True\<rparr>),
      (argLocalPort, (attr TypeString)\<lparr>Optional := True, Default := Some (VString ''26258'')\<rparr>)]"

definition resourceDatabaseCreate :: "env \<Rightarrow> cockroachClient \<Rightarrow> ResourceData \<Rightarrow> state \<times> unit result" where
  "resourceDatabaseCreate env meta d =
     (let local_port = get_string d argLocalPort;
          name = get_string d dbNameAttr;
          owner = get_string d dbOwnerAttr;
          encoding = get_string d dbEncodingAttr;
          primary_region = get_string d dbPrimaryRegionAttr;
          regions = convertToString (get_list d dbRegionsAttr);
          dns' = strings_Replace (dns meta) ''<local_port>'' local_port 1;
          s1 = make_chans (init d)
      in
      if name = [] then (s1, Fail (Errorf ''database name can't be an empty string''))
      else
     (let set_encoding = (if encoding \<noteq> [] then ''ENCODING '' @ QuoteIdentifier encoding else []);
          set_primary_region =
            (if primary_region \<noteq> [] then ''PRIMARY REGION '' @ QuoteIdentifier primary_region else []);
          set_regions =
            (if length regions \<noteq> 0 then ''REGIONS '' @ QuoteIdentifier (concat regions) else [])
      in
      case tryPortForwardIfNeeded env meta local_port s1 of
        (s2, Some e) \<Rightarrow> (s2, Panic (TunnelFailure e))
      | (s2, None) \<Rightarrow>
     (case pgx_Connect env dns' s2 of
        (s3, Inl err) \<Rightarrow> (s3, Fail (FromErr err))
      | (s3, Inr conn) \<Rightarrow>
     (case Ping env conn s3 of
        (s4, Some err) \<Rightarrow> (s4, Fail (FromErr err))
      | (s4, None) \<Rightarrow>
     (case Exec env conn
             (''CREATE DATABASE '' @ QuoteIdentifier name @ '' '' @ set_encoding @ '' ''
              @ set_primary_region @ '' '' @ set_regions) s4 of
        (s5, Some err) \<Rightarrow> (s5, Fail (FromErr err))
      | (s5, None) \<Rightarrow>
     (case Exec env conn
             (''ALTER DATABASE '' @ QuoteIdentifier name @ '' OWNER TO '' @ QuoteIdentifier owner) s5 of
        (s6, Some err) \<Rightarrow> (s6, Fail (FromErr err))
      | (s6, None) \<Rightarrow>
     (case QueryRow_id env conn ''SELECT id FROM crdb_internal.databases WHERE name = $1'' name s6 of
        (s7, Inl err) \<Rightarrow> (s7, Fail (FromErr err))
      | (s7, Inr dbid) \<Rightarrow>
     (let s8 = SetId (Itoa dbid) s7;
          s9 = fst (Set_string env dbNameAttr name s8);
          s10 = fst (Set_string env dbOwnerAttr owner s9);
          s11 = fst (Set_string env dbEncodingAttr encoding s10);
          s12 = fst (Set_string env dbPrimaryRegionAttr primary_region s11);
          s13 = fst (Set_list env dbRegionsAttr regions s12)
      in case close_stopCh s13 of
           None \<Rightarrow> (s13, Panic CloseOfClosedChannel)
         | Some s14 \<Rightarrow> (s14, Ok ())))))))))"

text \<open>The loop over the rows of \<open>resourceDatabaseRead\<close>: \<open>Inl\<close> is an early return with a
  diagnostic, \<open>Inr found\<close> the end of the loop (by \<open>break\<close> or after the last row).\<close>

fun database_rows ::
    "env \<Rightarrow> string \<Rightarrow> (string + database_row) list \<Rightarrow> state \<Rightarrow> state \<times> (diag + bool)" where
  "database_rows env name [] s = (s, Inr False)"
| "database_rows env name (r # rs) s =
     (case r of
        Inl err \<Rightarrow> (s, Inl (FromErr err))
      | Inr (database_name, owner, primary_region_n, regions, survival_goal) \<Rightarrow>
         (let primary_region = (case primary_region_n of Some v \<Rightarrow> v | None \<Rightarrow> []) in
          if database_name = name then
            (case Set_string env dbOwnerAttr owner s of
               (s1, Some err) \<Rightarrow> (s1, Inl (FromErr err))
             | (s1, None) \<Rightarrow>
            (case Set_string env dbPrimaryRegionAttr primary_region s1 of
               (s2, Some err) \<Rightarrow> (s2, Inl (FromErr err))
             | (s2, None) \<Rightarrow>
            (case Set_list env dbRegionsAttr regions s2 of
               (s3, Some err) \<Rightarrow> (s3, Inl (FromErr err))
             | (s3, None) \<Rightarrow> (s3, Inr True))))
          else database_rows env name rs s))"

definition resourceDatabaseRead :: "env \<Rightarrow> cockroachClient \<Rightarrow> ResourceData \<Rightarrow> state \<times> unit result" where
  "resourceDatabaseRead env meta d =
     (let local_port = get_string d argLocalPort;
          dns' = strings_Replace (dns meta) ''<local_port>'' local_port 1;
          s1 = make_chans (init d)
      in
      case tryPortForwardIfNeeded env meta local_port s1 of
        (s2, Some e) \<Rightarrow> (s2, Panic (TunnelFailure e))
      | (s2, None) \<Rightarrow>
     (case pgx_Connect env dns' s2 of
        (s3, Inl err) \<Rightarrow> (s3, Fail (FromErr err))
      | (s3, Inr conn) \<Rightarrow>
     (case Ping env conn s3 of
        (s4, Some err) \<Rightarrow> (s4, Fail (FromErr err))
      | (s4, None) \<Rightarrow>
     (let name = get_string (rd s4) dbNameAttr in
      case Query_databases env conn
             ''SELECT name AS database_name, owner, primary_region, regions, survival_goal FROM crdb_internal.databases''
             s4 of
        (s5, Inl err) \<Rightarrow> (s5, Fail (FromErr err))
      | (s5, Inr rows) \<Rightarrow>
     (case database_rows env name (scans rows) s5 of
        (s6, Inl dg) \<Rightarrow> (s6, Fail dg)
      | (s6, Inr found) \<Rightarrow>
     (case rows_Err rows of
        Some err \<Rightarrow> (s6, Fail (FromErr err))
      | None \<Rightarrow>
     (case close_stopCh s6 of
        None \<Rightarrow> (s6, Panic CloseOfClosedChannel)
      | Some s7 \<Rightarrow>
          if found = False then (s7, Fail (Errorf (''Cannot find database with name: '' @ name)))
          else (s7, Ok ()))))))))"

text \<open>The two loops over regions of \<open>resourceDatabaseUpdate\<close>: one statement for every
  region of the list that the other list does not contain.\<close>

fun exec_regions ::
    "env \<Rightarrow> pgx_Conn \<Rightarrow> string \<Rightarrow> string list \<Rightarrow> string list \<Rightarrow> state \<Rightarrow> state \<times> string option" where
  "exec_regions env conn sql [] other s = (s, None)"
| "exec_regions env conn sql (region # rs) other s =
     (if \<not> contains other region then
        (case Exec env conn (sql @ QuoteIdentifier region) s of
           (s1, Some err) \<Rightarrow> (s1, Some err)
         | (s1, None) \<Rightarrow> exec_regions env conn sql rs other s1)
      else exec_regions env conn sql rs other s)"

text \<open>
  The four blocks \<open>if d.HasChange(...) { ... }\<close> of \<open>resourceDatabaseUpdate\<close>, one
  definition each, in the order of the source. The second component is the early
  return of the enclosing function (\<open>None\<close>: the block falls through).
\<close>

definition update_name :: "env \<Rightarrow> pgx_Conn \<Rightarrow> state \<Rightarrow> state \<times> diag option" where
  "update_name env conn s =
     (if HasChange (rd s) dbNameAttr then
        (let ov = strs (rd_old (rd s)) dbNameAttr;
             nv = strs (rd_new (rd s)) dbNameAttr
         in if nv = [] then (s, Some (Errorf ''database name can't be an empty string''))
            else (case Exec env conn
                         (''ALTER DATABASE '' @ QuoteIdentifier ov @ '' RENAME TO ''
                          @ QuoteIdentifier nv) s of
                    (s1, Some err) \<Rightarrow> (s1, Some (FromErr err))
                  | (s1, None) \<Rightarrow> (fst (Set_string env dbNameAttr nv s1), None)))
      else (s, None))"

definition update_owner :: "env \<Rightarrow> pgx_Conn \<Rightarrow> state \<Rightarrow> state \<times> diag option" where
  "update_owner env conn s =
     (if HasChange (rd s) dbOwnerAttr then
        (let name = get_string (rd s) dbNameAttr;
             nv = strs (rd_new (rd s)) dbOwnerAttr
         in case Exec env conn
                   (''ALTER DATABASE '' @ QuoteIdentifier name @ '' OWNER TO '' @ QuoteIdentifier nv) s of
              (s1, Some err) \<Rightarrow> (s1, Some (FromErr err))
            | (s1, None) \<Rightarrow> (s1, None))
      else (s, None))"

definition update_primary_region :: "env \<Rightarrow> pgx_Conn \<Rightarrow> state \<Rightarrow> state \<times> diag option" where
  "update_primary_region env conn s =
     (if HasChange (rd s) dbPrimaryRegionAttr then
        (let name = get_string (rd s) dbNameAttr;
             nv = strs (rd_new (rd s)) dbPrimaryRegionAttr
         in case Exec env conn
                   (''ALTER DATABASE '' @ QuoteIdentifier name @ '' SET PRIMARY REGION ''
                    @ QuoteIdentifier nv) s of
              (s1, Some err) \<Rightarrow> (s1, Some (FromErr err))
            | (s1, None) \<Rightarrow> (s1, None))
      else (s, None))"

definition update_regions :: "env \<Rightarrow> pgx_Conn \<Rightarrow> state \<Rightarrow> state \<times> diag option" where
  "update_regions env conn s =
     (if HasChange (rd s) dbRegionsAttr then
        (let name = get_string (rd s) dbNameAttr;
             ov = convertToString (lists (rd_old (rd s)) dbRegionsAttr);
             nv = convertToString (lists (rd_new (rd s)) dbRegionsAttr)
         in case exec_regions env conn
                   (''ALTER DATABASE '' @ QuoteIdentifier name @ '' DROP REGION '') ov nv s of
              (s1, Some err) \<Rightarrow> (s1, Some (FromErr err))
            | (s1, None) \<Rightarrow>
                (case exec_regions env conn
                        (''ALTER DATABASE '' @ QuoteIdentifier name @ '' ADD REGION '') nv ov s1 of
                   (s2, Some err) \<Rightarrow> (s2, Some (FromErr err))
                 | (s2, None) \<Rightarrow> (s2, None)))
      else (s, None))"

definition resourceDatabaseUpdate :: "env \<Rightarrow> cockroachClient \<Rightarrow> ResourceData \<Rightarrow> state \<times> unit result" where
  "resourceDatabaseUpdate env meta d =
     (let local_port = get_string d argLocalPort;
          dns' = strings_Replace (dns meta) ''<local_port>'' local_port 1;
          s1 = make_chans (Partial True (init d))
      in
      case tryPortForwardIfNeeded env meta local_port s1 of
        (s2, Some e) \<Rightarrow> (s2, Panic (TunnelFailure e))
      | (s2, None) \<Rightarrow>
     (case pgx_Connect env dns' s2 of
        (s3, Inl err) \<Rightarrow> (s3, Fail (FromErr err))
      | (s3, Inr conn) \<Rightarrow>
     (case Ping env conn s3 of
        (s4, Some err) \<Rightarrow> (s4, Fail (FromErr err))
      | (s4, None) \<Rightarrow>
     (case update_name env conn s4 of
        (s5, Some dg) \<Rightarrow> (s5, Fail dg)
      | (s5, None) \<Rightarrow>
     (case update_owner env conn s5 of
        (s6, Some dg) \<Rightarrow> (s6, Fail dg)
      | (s6, None) \<Rightarrow>
     (case update_primary_region env conn s6 of
        (s7, Some dg) \<Rightarrow> (s7, Fail dg)
      | (s7, None) \<Rightarrow>
     (case update_regions env conn s7 of
        (s8, Some dg) \<Rightarrow> (s8, Fail dg)
      | (s8, None) \<Rightarrow>
     (let s9 = Partial False s8 in
      case close_stopCh s9 of
        None \<Rightarrow> (s9, Panic CloseOfClosedChannel)
      | Some s10 \<Rightarrow> (s10, Ok ())))))))))"

definition resourceDatabaseDelete :: "env \<Rightarrow> cockroachClient \<Rightarrow> ResourceData \<Rightarrow> state \<times> unit result" where
  "resourceDatabaseDelete env meta d =
     (let local_port = get_string d argLocalPort;
          dns' = strings_Replace (dns meta) ''<local_port>'' local_port 1;
          s1 = make_chans (init d)
      in
      case tryPortForwardIfNeeded env meta local_port s1 of
        (s2, Some e) \<Rightarrow> (s2, Panic (TunnelFailure e))
      | (s2, None) \<Rightarrow>
     (case pgx_Connect env dns' s2 of
        (s3, Inl err) \<Rightarrow> (s3, Fail (FromErr err))
      | (s3, Inr conn) \<Rightarrow>
     (case Ping env conn s3 of
        (s4, Some err) \<Rightarrow> (s4, Fail (FromErr err))
      | (s4, None) \<Rightarrow>
     (let name = get_string (rd s4) dbNameAttr in
      if name = [] then (s4, Fail (Errorf ''database name can't be an empty string''))
      else
     (case Exec env conn (''DROP DATABASE '' @ QuoteIdentifier name) s4 of
        (s5, Some err) \<Rightarrow> (s5, Fail (FromErr err))
      | (s5, None) \<Rightarrow>
     (let s6 = SetId [] s5;
          s7 = fst (Set_string env dbNameAttr [] s6)
      in case close_stopCh s7 of
           None \<Rightarrow> (s7, Panic CloseOfClosedChannel)
         | Some s8 \<Rightarrow> (s8, Ok ())))))))"

text \<open>The importer returns \<open>([]*schema.ResourceData{d}, nil)\<close>, here \<open>Ok ()\<close> with the data
  in the state, or \<open>(nil, err)\<close>, here \<open>Fail (FromErr err)\<close>.\<close>

definition resourceDatabaseImporter :: "env \<Rightarrow> cockroachClient \<Rightarrow> ResourceData \<Rightarrow> state \<times> unit result" where
  "resourceDatabaseImporter env meta d =
     (let local_port = get_string d argLocalPort;
          dns' = strings_Replace (dns meta) ''<local_port>'' local_port 1;
          name = rd_id d;
          s1 = make_chans (init d)
      in
      case tryPortForwardIfNeeded env meta local_port s1 of
        (s2, Some e) \<Rightarrow> (s2, Panic (TunnelFailure e))
      | (s2, None) \<Rightarrow>
     (case pgx_Connect env dns' s2 of
        (s3, Inl err) \<Rightarrow> (s3, Fail (FromErr err))
      | (s3, Inr conn) \<Rightarrow>
     (case Ping env conn s3 of
        (s4, Some err) \<Rightarrow> (s4, Fail (FromErr err))
      | (s4, None) \<Rightarrow>
     (case QueryRow_id_owner env conn
             ''SELECT id, owner FROM crdb_internal.databases WHERE name = $1'' name s4 of
        (s5, Inl err) \<Rightarrow> (s5, Fail (FromErr err))
      | (s5, Inr (dbid, owner)) \<Rightarrow>
     (case Set_string env dbNameAttr name (SetId (Itoa dbid) s5) of
        (s6, Some err) \<Rightarrow> (s6, Fail (FromErr err))
      | (s6, None) \<Rightarrow>
     (case Set_string env dbOwnerAttr owner s6 of
        (s7, Some err) \<Rightarrow> (s7, Fail (FromErr err))
      | (s7, None) \<Rightarrow>
     (case close_stopCh s7 of
        None \<Rightarrow> (s7, Panic CloseOfClosedChannel)
      | Some s8 \<Rightarrow> (s8, Ok ()))))))))"

section \<open>cockroach\_user\<close>

definition dbUsernameAttr :: string where "dbUsernameAttr = ''username''"
definition dbPasswordAttr :: string where "dbPasswordAttr = ''password''"
definition dbRolesAttr :: string where "dbRolesAttr = ''roles''"
definition dbAdminAttr :: string where "dbAdminAttr = ''is_admin''"

lemmas user_defs = dbUsernameAttr_def dbPasswordAttr_def dbRolesAttr_def dbAdminAttr_def

definition resourceUser :: "(string \<times> schema_attr) list" where
  "resourceUser =
     [(dbUsernameAttr, (attr TypeString)\<lparr>Required := True, ForceNew := True\<rparr>),
      (dbPasswordAttr,
         (attr TypeString)\<lparr>Optional := True, Sensitive := True, Default := Some (VString ''NULL'')\<rparr>),
      (dbRolesAttr, (attr TypeString)\<lparr>Optional := True, Default := Some (VString [])\<rparr>),
      (dbAdminAttr, (attr TypeBool)\<lparr>Optional := True, Default := Some (VBool False)\<rparr>),
      (argLocalPort, (attr TypeString)\<lparr>Required := True\<rparr>)]"

definition apostrophe :: string where
  "apostrophe = [CHR 0x27]"

definition resourceUserCreate :: "env \<Rightarrow> cockroachClient \<Rightarrow> ResourceData \<Rightarrow> state \<times> unit result" where
  "resourceUserCreate env meta d =
     (let local_port = get_string d argLocalPort;
          name = get_string d dbUsernameAttr;
          password = get_string d dbPasswordAttr;
          roles = get_string d dbRolesAttr;
          isAdmin = get_bool d dbAdminAttr;
          dns' = strings_Replace (dns meta) ''<local_port>'' local_port 1;
          s1 = make_chans (init d)
      in
      if local_port = [] then (s1, Fail (Errorf ''local_port can't be an empty string''))
      else if name = [] then (s1, Fail (Errorf ''username can't be an empty string''))
      else if password = [] then (s1, Fail (Errorf ''password can't be an empty string''))
      else
     (case tryPortForwardIfNeeded env meta local_port s1 of
        (s2, Some e) \<Rightarrow> (s2, Panic (TunnelFailure e))
      | (s2, None) \<Rightarrow>
     (case pgx_Connect env dns' s2 of
        (s3, Inl err) \<Rightarrow> (s3, Fail (FromErr err))
      | (s3, Inr conn) \<Rightarrow>
     (case Ping env conn s3 of
        (s4, Some err) \<Rightarrow> (s4, Fail (FromErr err))
      | (s4, None) \<Rightarrow>
     (case Exec env conn
             (''CREATE USER '' @ QuoteIdentifier name @ '' WITH PASSWORD '' @ apostrophe
              @ password @ apostrophe @ '' '' @ roles) s4 of
        (s5, Some err) \<Rightarrow> (s5, Fail (FromErr err))
      | (s5, None) \<Rightarrow>
     (case (if isAdmin then
              Exec env conn (''GRANT admin TO '' @ QuoteIdentifier name @ '' WITH ADMIN OPTION'') s5
            else (s5, None)) of
        (s6, Some err) \<Rightarrow> (s6, Fail (FromErr err))
      | (s6, None) \<Rightarrow>
     (let s7 = SetId name s6;
          s8 = fst (Set_string env dbNameAttr name s7);
          s9 = fst (Set_string env dbPasswordAttr password s8);
          s10 = fst (Set_string env dbRolesAttr roles s9);
          s11 = fst (Set_bool env dbAdminAttr isAdmin s10)
      in case close_stopCh s11 of
           None \<Rightarrow> (s11, Panic CloseOfClosedChannel)
         | Some s12 \<Rightarrow> (s12, Ok ()))))))))"

fun user_rows :: "env \<Rightarrow> string \<Rightarrow> (string + user_row) list \<Rightarrow> state \<Rightarrow> state \<times> (diag + bool)" where
  "user_rows env name [] s = (s, Inr False)"
| "user_rows env name (r # rs) s =
     (case r of
        Inl err \<Rightarrow> (s, Inl (FromErr err))
      | Inr (uname, options, member_of) \<Rightarrow>
          if uname = name then
            (case Set_bool env dbAdminAttr (contains member_of ''admin'') s of
               (s1, Some err) \<Rightarrow> (s1, Inl (FromErr err))
             | (s1, None) \<Rightarrow> (s1, Inr True))
          else user_rows env name rs s)"

definition resourceUserRead :: "env \<Rightarrow> cockroachClient \<Rightarrow> ResourceData \<Rightarrow> state \<times> unit result" where
  "resourceUserRead env meta d =
     (let local_port = get_string d argLocalPort;
          dns' = strings_Replace (dns meta) ''<local_port>'' local_port 1
      in
      if local_port = [] then (init d, Fail (Errorf ''local_port can't be an empty string''))
      else
     (let s1 = make_chans (init d) in
      case tryPortForwardIfNeeded env meta local_port s1 of
        (s2, Some e) \<Rightarrow> (s2, Panic (TunnelFailure e))
      | (s2, None) \<Rightarrow>
     (case pgx_Connect env dns' s2 of
        (s3, Inl err) \<Rightarrow> (s3, Fail (FromErr err))
      | (s3, Inr conn) \<Rightarrow>
     (case Ping env conn s3 of
        (s4, Some err) \<Rightarrow> (s4, Fail (FromErr err))
      | (s4, None) \<Rightarrow>
     (let name = rd_id (rd s4) in
      case Query_users env conn ''SHOW USERS'' s4 of
        (s5, Inl err) \<Rightarrow> (s5, Fail (FromErr err))
      | (s5, Inr rows) \<Rightarrow>
     (case user_rows env name (scans rows) s5 of
        (s6, Inl dg) \<Rightarrow> (s6, Fail dg)
      | (s6, Inr found) \<Rightarrow>
     (case rows_Err rows of
        Some err \<Rightarrow> (s6, Fail (FromErr err))
      | None \<Rightarrow>
     (case (if found = False then Set_string env dbNameAttr [] s6 else (s6, None)) of
        (s7, Some err) \<Rightarrow> (s7, Fail (FromErr err))
      | (s7, None) \<Rightarrow>
     (case close_stopCh s7 of
        None \<Rightarrow> (s7, Panic CloseOfClosedChannel)
      | Some s8 \<Rightarrow> (s8, Ok ()))))))))))"

text \<open>
  The block \<open>if d.HasChange(dbAdminAttr) || d.HasChange(dbRolesAttr) ||
  d.HasChange(dbPasswordAttr) { ... }\<close> of \<open>resourceUserUpdate\<close>; the second component is
  the early return of the enclosing function.
\<close>

definition update_user :: "env \<Rightarrow> pgx_Conn \<Rightarrow> state \<Rightarrow> state \<times> diag option" where
  "update_user env conn s =
     (if HasChange (rd s) dbAdminAttr \<or> HasChange (rd s) dbRolesAttr
         \<or> HasChange (rd s) dbPasswordAttr then
        (let npass = strs (rd_new (rd s)) dbPasswordAttr;
             oadmin = bools (rd_old (rd s)) dbAdminAttr;
             nadmin = bools (rd_new (rd s)) dbAdminAttr;
             nroles = strs (rd_new (rd s)) dbRolesAttr;
             name = rd_id (rd s);
             password = npass;
             roles = nroles
         in
         if password = [] then (s, Some (Errorf ''User password cannot be empty''))
         else
        (case Exec env conn
                (''ALTER USER '' @ QuoteIdentifier name @ '' WITH PASSWORD '' @ apostrophe
                 @ password @ apostrophe @ '' '' @ roles) s of
           (s1, Some err) \<Rightarrow> (s1, Some (FromErr err))
         | (s1, None) \<Rightarrow>
        (case (if oadmin = True \<and> nadmin = False then
                 Exec env conn (''REVOKE admin from '' @ QuoteIdentifier name) s1
               else (s1, None)) of
           (s2, Some err) \<Rightarrow> (s2, Some (FromErr err))
         | (s2, None) \<Rightarrow>
        (case (if oadmin = False \<and> nadmin = True then
                 Exec env conn
                   (''GRANT admin to '' @ QuoteIdentifier name @ '' WITH ADMIN OPTION'') s2
               else (s2, None)) of
           (s3, Some err) \<Rightarrow> (s3, Some (FromErr err))
         | (s3, None) \<Rightarrow>
        (let s4 = fst (Set_bool env dbAdminAttr nadmin s3);
             s5 = fst (Set_string env dbRolesAttr nroles s4);
             s6 = fst (Set_string env dbPasswordAttr npass s5)
         in (s6, None))))))
      else (s, None))"

definition resourceUserUpdate :: "env \<Rightarrow> cockroachClient \<Rightarrow> ResourceData \<Rightarrow> state \<times> unit result" where
  "resourceUserUpdate env meta d =
     (let local_port = get_string d argLocalPort;
          dns' = strings_Replace (dns meta) ''<local_port>'' local_port 1
      in
      if local_port = [] then (init d, Fail (Errorf ''local_port can't be an empty string''))
      else
     (let s1 = make_chans (Partial True (init d)) in
      case tryPortForwardIfNeeded env meta local_port s1 of
        (s2, Some e) \<Rightarrow> (s2, Panic (TunnelFailure e))
      | (s2, None) \<Rightarrow>
     (case pgx_Connect env dns' s2 of
        (s3, Inl err) \<Rightarrow> (s3, Fail (FromErr err))
      | (s3, Inr conn) \<Rightarrow>
     (case Ping env conn s3 of
        (s4, Some err) \<Rightarrow> (s4, Fail (FromErr err))
      | (s4, None) \<Rightarrow>
     (case update_user env conn s4 of
        (s5, Some dg) \<Rightarrow> (s5, Fail dg)
      | (s5, None) \<Rightarrow>
     (case close_stopCh s5 of
        None \<Rightarrow> (s5, Panic CloseOfClosedChannel)
      | Some s6 \<Rightarrow> (Partial False s6, Ok ())))))))"

definition resourceUserDelete :: "env \<Rightarrow> cockroachClient \<Rightarrow> ResourceData \<Rightarrow> state \<times> unit result" where
  "resourceUserDelete env meta d =
     (let local_port = get_string d argLocalPort;
          dns' = strings_Replace (dns meta) ''<local_port>'' local_port 1
      in
      if local_port = [] then (init d, Fail (Errorf ''local_port can't be an empty string''))
      else
     (let s1 = make_chans (init d) in
      case tryPortForwardIfNeeded env meta local_port s1 of
        (s2, Some e) \<Rightarrow> (s2, Panic (TunnelFailure e))
      | (s2, None) \<Rightarrow>
     (case pgx_Connect env dns' s2 of
        (s3, Inl err) \<Rightarrow> (s3, Fail (FromErr err))
      | (s3, Inr conn) \<Rightarrow>
     (case Ping env conn s3 of
        (s4, Some err) \<Rightarrow> (s4, Fail (FromErr err))
      | (s4, None) \<Rightarrow>
     (let uname = get_string (rd s4) dbUsernameAttr in
      if uname = [] then (s4, Fail (Errorf ''User name can't be an empty string''))
      else
     (case Exec env conn (''DROP USER '' @ QuoteIdentifier uname) s4 of
        (s5, Some err) \<Rightarrow> (s5, Fail (FromErr err))
      | (s5, None) \<Rightarrow>
     (case Set_string env dbUsernameAttr [] (SetId [] s5) of
        (s6, Some err) \<Rightarrow> (s6, Fail (FromErr err))
      | (s6, None) \<Rightarrow>
     (case Set_string env dbPasswordAttr [] s6 of
        (s7, Some err) \<Rightarrow> (s7, Fail (FromErr err))
      | (s7, None) \<Rightarrow>
     (case Set_string env dbRolesAttr [] s7 of
        (s8, Some err) \<Rightarrow> (s8, Fail (FromErr err))
      | (s8, None) \<Rightarrow>
     (case Set_bool env dbAdminAttr False s8 of
        (s9, Some err) \<Rightarrow> (s9, Fail (FromErr err))
      | (s9, None) \<Rightarrow>
     (case close_stopCh s9 of
        None \<Rightarrow> (s9, Panic CloseOfClosedChannel)
      | Some s10 \<Rightarrow> (s10, Ok ()))))))))))))"

text \<open>\<open>resourceUserRead\<close> returns \<open>nil\<close> when it succeeds, so the importer's test
  \<open>err != nil\<close> holds exactly for its diagnostics.\<close>

definition resourceUserImporter :: "env \<Rightarrow> cockroachClient \<Rightarrow> ResourceData \<Rightarrow> state \<times> unit result" where
  "resourceUserImporter env meta d =
     (case resourceUserRead env meta d of
        (s, Ok u) \<Rightarrow> (s, Ok ())
      | (s, Fail dg) \<Rightarrow> (s, Fail (FromErr ''Unable to import resource''))
      | (s, Panic p) \<Rightarrow> (s, Panic p))"

section \<open>cockroach\_database\_backup\<close>

definition schedulerNameAttr :: string where "schedulerNameAttr = ''name''"
definition schedulerBackupPathAttr :: string where "schedulerBackupPathAttr = ''backup_path''"
definition schedulerDbNameAttr :: string where "schedulerDbNameAttr = ''database_name''"
definition backupOptionsAttr :: string where "backupOptionsAttr = ''backup_options''"
definition backupReccuringAttr :: string where "backupReccuringAttr = ''backup_recurring''"
definition backupFullBackupAttr :: string where "backupFullBackupAttr = ''backup_full''"

lemmas backup_defs = schedulerNameAttr_def schedulerBackupPathAttr_def schedulerDbNameAttr_def
  backupOptionsAttr_def backupReccuringAttr_def backupFullBackupAttr_def

definition resourceDatabaseBackup :: "(string \<times> schema_attr) list" where
  "resourceDatabaseBackup =
     [(schedulerNameAttr, (attr TypeString)\<lparr>Required := True, ForceNew := True\<rparr>),
      (schedulerDbNameAttr, (attr TypeString)\<lparr>Required := True, ForceNew := True\<rparr>),
      (schedulerBackupPathAttr, (attr TypeString)\<lparr>Required := True, ForceNew := True\<rparr>),
      (backupFullBackupAttr,
         (attr TypeString)\<lparr>Optional := True, ForceNew := True, Default := Some (VString ''ALWAYS'')\<rparr>),
      (backupReccuringAttr,
         (attr TypeString)\<lparr>Optional := True, ForceNew := True, Default := Some (VString ''@daily'')\<rparr>),
      (backupOptionsAttr, (attr TypeList)\<lparr>Optional := True, ForceNew := True\<rparr>),
      (argLocalPort, (attr TypeString)\<lparr>Optional := True, Default := Some (VString ''26260'')\<rparr>)]"

text \<open>\<open>strings.Join(elems, sep)\<close>.\<close>

fun strings_Join :: "string list \<Rightarrow> string \<Rightarrow> string" where
  "strings_Join [] sep = []"
| "strings_Join [x] sep = x"
| "strings_Join (x # y # ys) sep = x @ sep @ strings_Join (y # ys) sep"

definition resourceDatabaseBackupCreate ::
    "env \<Rightarrow> cockroachClient \<Rightarrow> ResourceData \<Rightarrow> state \<times> unit result" where
  "resourceDatabaseBackupCreate env meta d =
     (let local_port = get_string d argLocalPort;
          scheduler_name = get_string d schedulerNameAttr;
          db_name = get_string d schedulerDbNameAttr;
          scheduler_backup_path = get_string d schedulerBackupPathAttr;
          scheduler_full_backup = get_string d backupFullBackupAttr;
          scheduler_backup_reccuring = get_string d backupReccuringAttr;
          scheduler_backup_options = convertToString (get_list d backupOptionsAttr);
          dns' = strings_Replace (dns meta) ''<local_port>'' local_port 1;
          s1 = make_chans (init d)
      in
      if scheduler_name = [] then (s1, Fail (Errorf ''Scheduler name can't be an empty string''))
      else if db_name = [] then (s1, Fail (Errorf ''Database name can't be an empty string''))
      else if scheduler_backup_path = [] then (s1, Fail (Errorf ''Backup path can't be an empty string''))
      else
     (let set_scheduler_backup_options =
            (if length scheduler_backup_options \<noteq> 0
             then ''WITH '' @ strings_Join scheduler_backup_options '' '' else [])
      in
      case tryPortForwardIfNeeded env meta local_port s1 of
        (s2, Some e) \<Rightarrow> (s2, Panic (TunnelFailure e))
      | (s2, None) \<Rightarrow>
     (case pgx_Connect env dns' s2 of
        (s3, Inl err) \<Rightarrow> (s3, Fail (FromErr err))
      | (s3, Inr conn) \<Rightarrow>
     (case Ping env conn s3 of
        (s4, Some err) \<Rightarrow> (s4, Fail (FromErr err))
      | (s4, None) \<Rightarrow>
     (case Exec env conn
             (''CREATE SCHEDULE '' @ QuoteIdentifier scheduler_name @ '' FOR BACKUP DATABASE ''
              @ QuoteIdentifier db_name @ '' INTO '' @ QuoteIdentifier scheduler_backup_path @ '' ''
              @ set_scheduler_backup_options @ '' RECURRING '' @ apostrophe
              @ scheduler_backup_reccuring @ apostrophe @ '' FULL BACKUP '' @ scheduler_full_backup)
             s4 of
        (s5, Some err) \<Rightarrow> (s5, Fail (FromErr err))
      | (s5, None) \<Rightarrow>
     (case QueryRow_id env conn ''SELECT schedule_id FROM scheduled_jobs WHERE schedule_name = $1''
             scheduler_name s5 of
        (s6, Inl err) \<Rightarrow> (s6, Fail (FromErr err))
      | (s6, Inr sid) \<Rightarrow>
     (let s7 = SetId (Itoa sid) s6 in
      case close_stopCh s7 of
        None \<Rightarrow> (s7, Panic CloseOfClosedChannel)
      | Some s8 \<Rightarrow> (s8, Ok ()))))))))"

definition resourceDatabaseBackupRead ::
    "env \<Rightarrow> cockroachClient \<Rightarrow> ResourceData \<Rightarrow> state \<times> unit result" where
  "resourceDatabaseBackupRead env meta d =
     (let local_port = get_string d argLocalPort;
          dns' = strings_Replace (dns meta) ''<local_port>'' local_port 1;
          s1 = make_chans (init d)
      in
      case tryPortForwardIfNeeded env meta local_port s1 of
        (s2, Some e) \<Rightarrow> (s2, Panic (TunnelFailure e))
      | (s2, None) \<Rightarrow>
     (case pgx_Connect env dns' s2 of
        (s3, Inl err) \<Rightarrow> (s3, Fail (FromErr err))
      | (s3, Inr conn) \<Rightarrow>
     (case Ping env conn s3 of
        (s4, Some err) \<Rightarrow> (s4, Fail (FromErr err))
      | (s4, None) \<Rightarrow>
     (let scheduller_id = rd_id (rd s4) in
      case QueryRow_schedule env conn
             ''SELECT schedule_name, schedule_expr FROM scheduled_jobs WHERE schedule_id = $1''
             scheduller_id s4 of
        (s5, Inl err) \<Rightarrow> (s5, Fail (FromErr err))
      | (s5, Inr (scheduler_name, schedule_expr)) \<Rightarrow>
     (case Set_string env schedulerNameAttr scheduler_name s5 of
        (s6, Some err) \<Rightarrow> (s6, Fail (FromErr err))
      | (s6, None) \<Rightarrow>
     (case Set_string env backupReccuringAttr schedule_expr s6 of
        (s7, Some err) \<Rightarrow> (s7, Fail (FromErr err))
      | (s7, None) \<Rightarrow>
     (case close_stopCh s7 of
        None \<Rightarrow> (s7, Panic CloseOfClosedChannel)
      | Some s8 \<Rightarrow> (s8, Ok ()))))))))"

definition resourceDatabaseBackupUpdate ::
    "env \<Rightarrow> cockroachClient \<Rightarrow> ResourceData \<Rightarrow> state \<times> unit result" where
  "resourceDatabaseBackupUpdate env meta d = (init d, Ok ())"

definition resourceDatabaseBackupDelete ::
    "env \<Rightarrow> cockroachClient \<Rightarrow> ResourceData \<Rightarrow> state \<times> unit result" where
  "resourceDatabaseBackupDelete env meta d =
     (let scheduller_id = rd_id d;
          local_port = get_string d argLocalPort;
          dns' = strings_Replace (dns meta) ''<local_port>'' local_port 1;
          s1 = make_chans (init d)
      in
      case tryPortForwardIfNeeded env meta local_port s1 of
        (s2, Some e) \<Rightarrow> (s2, Panic (TunnelFailure e))
      | (s2, None) \<Rightarrow>
     (case pgx_Connect env dns' s2 of
        (s3, Inl err) \<Rightarrow> (s3, Fail (FromErr err))
      | (s3, Inr conn) \<Rightarrow>
     (case Ping env conn s3 of
        (s4, Some err) \<Rightarrow> (s4, Fail (FromErr err))
      | (s4, None) \<Rightarrow>
     (case Exec env conn (''DROP SCHEDULE '' @ scheduller_id) s4 of
        (s5, Some err) \<Rightarrow> (s5, Fail (FromErr err))
      | (s5, None) \<Rightarrow>
     (let s6 = SetId [] s5;
          s7 = fst (Set_string env schedulerDbNameAttr [] s6)
      in case close_stopCh s7 of
           None \<Rightarrow> (s7, Panic CloseOfClosedChannel)
         | Some s8 \<Rightarrow> (s8, Ok ()))))))"

section \<open>The cockroach\_database data source\<close>

definition dataSourceDatabase :: "(string \<times> schema_attr) list" where
  "dataSourceDatabase =
     [(dbNameAttr, (attr TypeString)\<lparr>Required := True\<rparr>),
      (dbOwnerAttr, (attr TypeString)\<lparr>Optional := True, Computed := True\<rparr>),
      (argLocalPort, (attr TypeString)\<lparr>Optional := True, Default := Some (VString ''26259'')\<rparr>)]"

text \<open>
  \<open>dataSourceDatabaseRead\<close> does not test the error of \<open>pgx.Connect\<close>: its next statement
  is \<open>conn.Ping(ctx)\<close>, on \<open>nil\<close> when the connection failed, where the method dereferences
  its receiver.
\<close>

definition dataSourceDatabaseRead :: "env \<Rightarrow> cockroachClient \<Rightarrow> ResourceData \<Rightarrow> state \<times> unit result" where
  "dataSourceDatabaseRead env meta d =
     (let local_port = get_string d argLocalPort;
          dns' = strings_Replace (dns meta) ''<local_port>'' local_port 1;
          s1 = make_chans (init d)
      in
      case tryPortForwardIfNeeded env meta local_port s1 of
        (s2, Some e) \<Rightarrow> (s2, Panic (TunnelFailure e))
      | (s2, None) \<Rightarrow>
     (case pgx_Connect env dns' s2 of
        (s3, Inl err) \<Rightarrow> (emit EvPing s3, Panic NilPointerDereference)
      | (s3, Inr conn) \<Rightarrow>
     (case Ping env conn s3 of
        (s4, Some err) \<Rightarrow> (s4, Fail (FromErr err))
      | (s4, None) \<Rightarrow>
     (let name = get_string (rd s4) ''name'' in
      case QueryRow_id_owner env conn
             ''SELECT id, owner FROM crdb_internal.databases WHERE name = $1'' name s4 of
        (s5, Inl err) \<Rightarrow> (s5, Fail (FromErr err))
      | (s5, Inr (dbid, owner)) \<Rightarrow>
     (case Set_string env dbNameAttr name (SetId (Itoa dbid) s5) of
        (s6, Some err) \<Rightarrow> (s6, Fail (FromErr err))
      | (s6, None) \<Rightarrow>
     (case Set_string env dbOwnerAttr owner s6 of
        (s7, Some err) \<Rightarrow> (s7, Fail (FromErr err))
      | (s7, None) \<Rightarrow>
     (case close_stopCh s7 of
        None \<Rightarrow> (s7, Panic CloseOfClosedChannel)
      | Some s8 \<Rightarrow> (s8, Ok ()))))))))"

section \<open>All operations\<close>

datatype operation =
    DatabaseCreate | DatabaseRead | DatabaseUpdate | DatabaseDelete | DatabaseImport
  | UserCreate | UserRead | UserUpdate | UserDelete | UserImport
  | BackupCreate | BackupRead | BackupUpdate | BackupDelete
  | DataSourceRead

fun run :: "operation \<Rightarrow> env \<Rightarrow> cockroachClient \<Rightarrow> ResourceData \<Rightarrow> state \<times> unit result" where
  "run DatabaseCreate = resourceDatabaseCreate"
| "run DatabaseRead = resourceDatabaseRead"
| "run DatabaseUpdate = resourceDatabaseUpdate"
| "run DatabaseDelete = resourceDatabaseDelete"
| "run DatabaseImport = resourceDatabaseImporter"
| "run UserCreate = resourceUserCreate"
| "run UserRead = resourceUserRead"
| "run UserUpdate = resourceUserUpdate"
| "run UserDelete = resourceUserDelete"
| "run UserImport = resourceUserImporter"
| "run BackupCreate = resourceDatabaseBackupCreate"
| "run BackupRead = resourceDatabaseBackupRead"
| "run BackupUpdate = resourceDatabaseBackupUpdate"
| "run BackupDelete = resourceDatabaseBackupDelete"
| "run DataSourceRead = dataSourceDatabaseRead"

section \<open>Reading a trace\<close>

text \<open>
  The connection strings handed to \<open>pgx.Connect\<close>, the number of \<open>close(stopCh)\<close>, the
  statements handed to \<open>conn.Exec\<close>, and the order of readiness and connection:
  \<open>connect_after_ready r tr\<close> holds when every \<open>EvConnect\<close> of \<open>tr\<close> comes after an
  \<open>EvReady\<close> of \<open>tr\<close>, or \<open>r\<close> holds (readiness fired before \<open>tr\<close>).
\<close>

fun connects :: "event list \<Rightarrow> string list" where
  "connects [] = []"
| "connects (EvConnect c # es) = c # connects es"
| "connects (_ # es) = connects es"

fun closes :: "event list \<Rightarrow> nat" where
  "closes [] = 0"
| "closes (EvCloseStop # es) = Suc (closes es)"
| "closes (_ # es) = closes es"

fun connect_after_ready :: "bool \<Rightarrow> event list \<Rightarrow> bool" where
  "connect_after_ready r [] = True"
| "connect_after_ready r (EvReady # es) = connect_after_ready True es"
| "connect_after_ready r (EvConnect c # es) = (r \<and> connect_after_ready r es)"
| "connect_after_ready r (_ # es) = connect_after_ready r es"

fun execs :: "event list \<Rightarrow> string list" where
  "execs [] = []"
| "execs (EvExec q # es) = q # execs es"
| "execs (_ # es) = execs es"

text \<open>
  For the proofs: an event is quiet when it is a call on an open connection, and a
  state follows another calmly when it extends its trace by quiet events and leaves the
  channels and the listener as they are.
\<close>

fun quiet :: "event \<Rightarrow> bool" where
  "quiet EvPing = True"
| "quiet (EvExec q) = True"
| "quiet (EvQuery q) = True"
| "quiet (EvQueryRow q a) = True"
| "quiet _ = False"

definition calm :: "state \<Rightarrow> state \<Rightarrow> bool" where
  "calm s s' =
     (stopCh s' = stopCh s \<and> readyCh s' = readyCh s \<and> listener s' = listener s
      \<and> (\<exists>es. trace s' = trace s @ es \<and> list_all quiet es))"

section \<open>Definitions for the statements and proofs\<close>

text \<open>
  The path that \<open>configure\<close> hands to \<open>clientcmd.BuildConfigFromFlags\<close>, or the error of
  \<open>homeDir\<close>: the computation between reading \<open>kube_config_path\<close> and loading the
  configuration.
\<close>

definition expand_home :: "env \<Rightarrow> string \<Rightarrow> string + string" where
  "expand_home env path0 =
     (if strings_Contains path0 ''~''
      then (case homeDir env of
              Inl err \<Rightarrow> Inl err
            | Inr h \<Rightarrow> Inr (strings_Replace path0 ''~'' h (- 1)))
      else Inr path0)"

text \<open>The statements that \<open>update_user\<close> hands to \<open>conn.Exec\<close>, in order.\<close>

definition update_user_stmts :: "env \<Rightarrow> ResourceData \<Rightarrow> string list" where
  "update_user_stmts env d =
     (let alter = ''ALTER USER '' @ QuoteIdentifier (rd_id d) @ '' WITH PASSWORD '' @ apostrophe
                  @ strs (rd_new d) dbPasswordAttr @ apostrophe @ '' '' @ strs (rd_new d) dbRolesAttr;
          revoke = ''REVOKE admin from '' @ QuoteIdentifier (rd_id d);
          grant = ''GRANT admin to '' @ QuoteIdentifier (rd_id d) @ '' WITH ADMIN OPTION'';
          oadmin = bools (rd_old d) dbAdminAttr;
          nadmin = bools (rd_new d) dbAdminAttr
      in if (HasChange d dbAdminAttr \<or> HasChange d dbRolesAttr \<or> HasChange d dbPasswordAttr)
            \<and> strs (rd_new d) dbPasswordAttr \<noteq> []
         then alter #
           (if conn_exec env alter \<noteq> None then []
            else if oadmin \<and> \<not> nadmin then [revoke]
            else if \<not> oadmin \<and> nadmin then [grant]
            else [])
         else [])"

text \<open>
  What every operation's run has in common: at most one connection attempt, with the
  client's \<open>dns\<close> in which the first \<open><local_port>\<close> is replaced by the operation's
  \<open>local_port\<close>; at most one \<open>close(stopCh)\<close>, which never panics; and, with Kubernetes
  configuration, no connection attempt before the readiness signal.
\<close>

definition shaped :: "cockroachClient \<Rightarrow> ResourceData \<Rightarrow> state \<times> unit result \<Rightarrow> bool" where
  "shaped meta d x =
     (connects (trace (fst x))
        \<in> {[], [strings_Replace (dns meta) ''<local_port>'' (get_string d argLocalPort) 1]}
      \<and> closes (trace (fst x)) \<le> 1
      \<and> snd x \<noteq> Panic CloseOfClosedChannel
      \<and> (kubeConfig (kubeConn meta) = None \<or> connect_after_ready False (trace (fst x))))"

text \<open>A run that fails with a diagnostic has not closed its stop channel.\<close>

definition open_on_failure :: "state \<times> unit result \<Rightarrow> bool" where
  "open_on_failure x = (case snd x of Fail dg \<Rightarrow> stopCh (fst x) \<noteq> Some ChClosed | _ \<Rightarrow> True)"

text \<open>The same for the diagnostics built by \<open>diag.FromErr\<close> only.\<close>

definition open_before_lookup :: "state \<times> unit result \<Rightarrow> bool" where
  "open_before_lookup x = (\<forall>e. snd x = Fail (FromErr e) \<longrightarrow> stopCh (fst x) \<noteq> Some ChClosed)"

text \<open>The statements a run executes are one of the lists of \<open>S\<close>.\<close>

definition issues :: "string list set \<Rightarrow> state \<times> unit result \<Rightarrow> bool" where
  "issues S x = (execs (trace (fst x)) \<in> S)"

text \<open>A run that succeeds has handed \<open>pgx.Connect\<close> exactly the client's \<open>dns\<close> with the
  port substituted.\<close>

definition connected :: "cockroachClient \<Rightarrow> ResourceData \<Rightarrow> state \<times> unit result \<Rightarrow> bool" where
  "connected meta d x =
     (snd x = Ok () \<longrightarrow>
        connects (trace (fst x)) =
          [strings_Replace (dns meta) ''<local_port>'' (get_string d argLocalPort) 1])"

text \<open>
  The statements of a \<open>resourceUserCreate\<close> and of a \<open>resourceUserUpdate\<close> that succeed, and
  the runs that succeed having executed exactly the statements \<open>l\<close>.
\<close>

definition create_user_stmts :: "ResourceData \<Rightarrow> string list" where
  "create_user_stmts d =
     (''CREATE USER '' @ QuoteIdentifier (get_string d dbUsernameAttr) @ '' WITH PASSWORD ''
        @ [CHR 0x27] @ get_string d dbPasswordAttr @ [CHR 0x27] @ '' '' @ get_string d dbRolesAttr)
     # (if get_bool d dbAdminAttr
        then [''GRANT admin TO '' @ QuoteIdentifier (get_string d dbUsernameAttr) @ '' WITH ADMIN OPTION'']
        else [])"

definition alter_user_stmts :: "ResourceData \<Rightarrow> string list" where
  "alter_user_stmts d =
     (if HasChange d dbAdminAttr \<or> HasChange d dbRolesAttr \<or> HasChange d dbPasswordAttr then
        (''ALTER USER '' @ QuoteIdentifier (rd_id d) @ '' WITH PASSWORD ''
           @ [CHR 0x27] @ strs (rd_new d) dbPasswordAttr @ [CHR 0x27] @ '' ''
           @ strs (rd_new d) dbRolesAttr)
        # (if bools (rd_old d) dbAdminAttr \<and> \<not> bools (rd_new d) dbAdminAttr
           then [''REVOKE admin from '' @ QuoteIdentifier (rd_id d)]
           else if \<not> bools (rd_old d) dbAdminAttr \<and> bools (rd_new d) dbAdminAttr
           then [''GRANT admin to '' @ QuoteIdentifier (rd_id d) @ '' WITH ADMIN OPTION'']
           else [])
      else [])"

definition executed :: "string list \<Rightarrow> state \<times> unit result \<Rightarrow> bool" where
  "executed l x = (snd x = Ok () \<longrightarrow> execs (trace (fst x)) = l)"

text \<open>A schema declares for \<open>local_port\<close> a default among \<open>"26257"\<close> to \<open>"26260"\<close>.\<close>

definition has_port_default :: "(string \<times> schema_attr) list \<Rightarrow> bool" where
  "has_port_default sch =
     (case map_of sch argLocalPort of
        None \<Rightarrow> False
      | Some a \<Rightarrow> Default a \<in> {Some (VString ''26257''), Some (VString ''26258''),
                               Some (VString ''26259''), Some (VString ''26260'')})"

section \<open>Example inputs\<close>

text \<open>
  A world in which everything succeeds, a client as \<open>configure\<close> builds it from a
  \<open>kube_config\<close> block, and the data of a resource with \<open>local_port = "26258"\<close>.
\<close>

definition ex_env :: env where
  "ex_env =
     \<lparr>getenv_HOME = ''/home/u'',
      BuildConfigFromFlags = (\<lambda>path. Inr 1),
      NewForConfig = (\<lambda>c. Inr 2),
      resolve_pod = (\<lambda>ns svc. Some ''cockroachdb-0''),
      port_forward = (\<lambda>pod l r. ForwardReady),
      pgx_connect = (\<lambda>c. None),
      conn_ping = None,
      conn_exec = (\<lambda>q. None),
      scan_id = (\<lambda>q a. Inr 7),
      scan_id_owner = (\<lambda>q a. Inr (7, ''root'')),
      scan_schedule = (\<lambda>q a. Inr (''nightly'', ''@daily'')),
      query_databases = (\<lambda>q. Inr \<lparr>scans = [], rows_Err = None\<rparr>),
      query_users = (\<lambda>q. Inr \<lparr>scans = [], rows_Err = None\<rparr>),
      set_error = (\<lambda>k. None)\<rparr>"

definition ex_block :: kube_block where
  "ex_block =
     \<lparr>kb_kube_config_path = ''~/.kube/config'', kb_namespace = ''crdb'',
      kb_service_name = ''cockroachdb-public'', kb_remote_port = ''26257''\<rparr>"

definition ex_pd :: provider_data where
  "ex_pd = \<lparr>pd_dns = [], pd_username = ''u'', pd_password = ''p'', pd_kube_config = [ex_block]\<rparr>"

definition ex_meta :: cockroachClient where
  "ex_meta =
     \<lparr>dns = ''postgresql://u:p@localhost:<local_port>/system?sslmode=disable'',
      username = ''u'', password = ''p'',
      kubeConn = \<lparr>configPath = [], nameSpace = ''crdb'', serviceName = ''cockroachdb-public'',
                  remotePort = ''26257'', kubeConfig = Some 1, kubeClient = Some 2\<rparr>\<rparr>"

definition ex_attrs :: attrs where
  "ex_attrs =
     \<lparr>strs = (\<lambda>k. if k = ''local_port'' then ''26258''
                   else if k = ''name'' then ''db''
                   else if k = ''username'' then ''bob''
                   else if k = ''password'' then ''pw''
                   else if k = ''roles'' then ''LOGIN''
                   else []),
      bools = (\<lambda>k. False),
      lists = (\<lambda>k. [])\<rparr>"

definition ex_d :: ResourceData where
  "ex_d = \<lparr>rd_cur = ex_attrs, rd_old = ex_attrs, rd_new = ex_attrs, rd_id = ''bob'',
           rd_partial = False\<rparr>"

text \<open>The data of a user whose password and \<open>is_admin\<close> are to change.\<close>

definition ex_d_changed :: ResourceData where
  "ex_d_changed =
     ex_d\<lparr>rd_new := ex_attrs\<lparr>strs := (strs ex_attrs)(''password'' := ''pw2''),
                               bools := (\<lambda>k. k = ''is_admin'')\<rparr>\<rparr>"

text \<open>The same world with a server that refuses connections, a provider configuration
  without a \<open>kube_config\<close> block, and one whose block has an empty namespace.\<close>

definition ex_env_refused :: env where
  "ex_env_refused = ex_env\<lparr>pgx_connect := (\<lambda>c. Some ''connection refused'')\<rparr>"

definition ex_pd_direct :: provider_data where
  "ex_pd_direct =
     \<lparr>pd_dns = ''postgresql://u:p@db.example:26257/system?sslmode=disable'',
      pd_username = ''u'', pd_password = ''p'', pd_kube_config = []\<rparr>"

definition ex_pd_no_namespace :: provider_data where
  "ex_pd_no_namespace = ex_pd\<lparr>pd_kube_config := [ex_block\<lparr>kb_namespace := []\<rparr>]\<rparr>"

section \<open>Lemmas on strings\<close>

lemma strings_Cut_decomp: "strings_Cut s sep = Some (b, a) \<Longrightarrow> s = b @ sep @ a"
proof (induction s arbitrary: b)
  case Nil
  then show ?case by (simp split: if_splits)
next
  case (Cons c cs)
  show ?case
  proof (cases "prefix sep (c # cs)")
    case True
    then obtain zs where zs: "c # cs = sep @ zs" by (auto simp: prefix_def)
    from True Cons.prems have "b = []" and "a = drop (length sep) (c # cs)" by simp_all
    with zs show ?thesis by simp
  next
    case False
    with Cons.prems obtain b' where "strings_Cut cs sep = Some (b', a)" and "b = c # b'"
      by (auto split: option.splits)
    with Cons.IH [of b'] show ?thesis by simp
  qed
qed

lemma strings_Replace_once:
  "old \<noteq> [] \<Longrightarrow>
     strings_Replace s old new 1 =
       (case strings_Cut s old of None \<Rightarrow> s | Some (b, a) \<Rightarrow> b @ new @ a)"
  by (simp add: strings_Replace.simps [of s old new 1] strings_Replace.simps [of _ old new 0]
        split: option.split)

lemma strings_Cut_char:
  "strings_Cut s [c] =
     (if c \<in> set s then Some (takeWhile (\<lambda>x. x \<noteq> c) s, tl (dropWhile (\<lambda>x. x \<noteq> c) s)) else None)"
  by (induction s) auto

lemma strings_Replace_all_char:
  "n < 0 \<Longrightarrow> strings_Replace s [c] h n = concat (map (\<lambda>x. if x = c then h else [x]) s)"
proof (induction s "[c]" h n rule: strings_Replace.induct)
  case (1 s new n)
  show ?case
  proof (cases "c \<in> set s")
    case False
    then have "concat (map (\<lambda>x. if x = c then new else [x]) s) = s"
      by (induction s) auto
    with False show ?thesis
      by (simp add: strings_Replace.simps [of s] strings_Cut_char)
  next
    case True
    let ?b = "takeWhile (\<lambda>x. x \<noteq> c) s" and ?a = "tl (dropWhile (\<lambda>x. x \<noteq> c) s)"
    from True have cut: "strings_Cut s [c] = Some (?b, ?a)" by (simp add: strings_Cut_char)
    from True have s: "s = ?b @ c # ?a"
      by (metis (mono_tags, lifting) dropWhile_eq_Nil_conv hd_dropWhile list.collapse takeWhile_dropWhile_id)
    have b: "concat (map (\<lambda>x. if x = c then new else [x]) ?b) = ?b"
      by (induction s) auto
    from "1.prems" have "n \<noteq> 0" and "n - 1 < 0" by simp_all
    with "1.hyps" [OF _ cut refl] have IH:
      "strings_Replace ?a [c] new (n - 1) = concat (map (\<lambda>x. if x = c then new else [x]) ?a)"
      by simp
    have "concat (map (\<lambda>x. if x = c then new else [x]) s)
          = concat (map (\<lambda>x. if x = c then new else [x]) (?b @ c # ?a))"
      using s by simp
    also have "\<dots> = ?b @ new @ concat (map (\<lambda>x. if x = c then new else [x]) ?a)"
      using b by simp
    finally show ?thesis
      using cut IH \<open>n \<noteq> 0\<close> by (simp add: strings_Replace.simps [of s])
  qed
qed

section \<open>Lemmas on provider configuration\<close>

lemma Get_off_schema: "(Get d key = VNil) = (key \<notin> fst ` set providerSchema)"
  by (simp add: Get_def providerSchema_def arg_defs)

lemma configure_kube:
  assumes "pd_kube_config d = kb # rest"
  shows "configure env d =
     (if pd_username d = [] then ([], Fail (Errorf ''database username can't be an empty string''))
      else if pd_password d = [] then ([], Fail (Errorf ''database password can't be an empty string''))
      else (case expand_home env (kb_kube_config_path kb) of
              Inl err \<Rightarrow> ([], Fail (FromErr err))
            | Inr path \<Rightarrow>
               (case BuildConfigFromFlags env path of
                  Inl err \<Rightarrow> ([EvBuildConfigFromFlags path], Fail (FromErr err))
                | Inr kcfg \<Rightarrow>
                   (case NewForConfig env kcfg of
                      Inl err \<Rightarrow> ([EvBuildConfigFromFlags path, EvNewForConfig], Fail (FromErr err))
                    | Inr kcl \<Rightarrow>
                       if kb_namespace kb = [] then
                         ([EvBuildConfigFromFlags path, EvNewForConfig],
                          Fail (Errorf ''Cockroachdb namespace is not specified''))
                       else if kb_service_name kb = [] then
                         ([EvBuildConfigFromFlags path, EvNewForConfig],
                          Fail (Errorf ''Cockroachdb service name is not specified''))
                       else
                         ([EvBuildConfigFromFlags path, EvNewForConfig],
                          Ok \<lparr>dns = ''postgresql://'' @ pd_username d @ '':'' @ pd_password d
                                     @ ''@localhost:<local_port>/system?sslmode=disable'',
                              username = pd_username d, password = pd_password d,
                              kubeConn = \<lparr>configPath = [], nameSpace = kb_namespace kb,
                                          serviceName = kb_service_name kb,
                                          remotePort = kb_remote_port kb,
                                          kubeConfig = Some kcfg, kubeClient = Some kcl\<rparr>\<rparr>)))))"
  using assms
  by (simp add: configure_def Get_def arg_defs kube_block_map_def map_index_def Let_def
        zero_client_def expand_home_def split: sum.split)

lemma configure_direct:
  assumes "pd_kube_config d = []"
  shows "configure env d =
     (if pd_username d = [] then ([], Fail (Errorf ''database username can't be an empty string''))
      else if pd_password d = [] then ([], Fail (Errorf ''database password can't be an empty string''))
      else ([], Panic InterfaceConversion))"
  using assms
  by (simp add: configure_def Get_def arg_defs Let_def zero_client_def)

section \<open>Lemmas on traces and steps\<close>

lemma connects_append [simp]: "connects (xs @ ys) = connects xs @ connects ys"
  by (induction xs rule: connects.induct) simp_all

lemma closes_append [simp]: "closes (xs @ ys) = closes xs + closes ys"
  by (induction xs rule: closes.induct) simp_all

lemma connects_quiet: "list_all quiet es \<Longrightarrow> connects es = []"
  by (induction es rule: connects.induct) simp_all

lemma closes_quiet: "list_all quiet es \<Longrightarrow> closes es = 0"
  by (induction es rule: closes.induct) simp_all

lemma connect_after_ready_quiet:
  "list_all quiet es \<Longrightarrow> connect_after_ready r (es @ ys) = connect_after_ready r ys"
  by (induction r es rule: connect_after_ready.induct) simp_all

lemma connect_after_ready_mid:
  "list_all quiet es \<Longrightarrow>
     connect_after_ready r (xs @ es @ ys) = connect_after_ready r (xs @ ys)"
  by (induction r xs rule: connect_after_ready.induct)
     (simp_all add: connect_after_ready_quiet)

lemma calm_refl: "calm s s"
  by (simp add: calm_def)

lemma calm_emit: "quiet e \<Longrightarrow> calm s s1 \<Longrightarrow> calm s (emit e s1)"
  by (auto simp: calm_def emit_def)

lemma calm_Exec: "calm s s1 \<Longrightarrow> calm s (fst (Exec env conn q s1))"
  by (simp add: Exec_def calm_emit)

lemma calm_Set_string: "calm s s1 \<Longrightarrow> calm s (fst (Set_string env k v s1))"
  by (auto simp: calm_def Set_string_def split: option.splits)

lemma calm_Set_bool: "calm s s1 \<Longrightarrow> calm s (fst (Set_bool env k v s1))"
  by (auto simp: calm_def Set_bool_def split: option.splits)

lemma calm_Set_list: "calm s s1 \<Longrightarrow> calm s (fst (Set_list env k v s1))"
  by (auto simp: calm_def Set_list_def split: option.splits)

lemma calm_exec_regions: "calm s s1 \<Longrightarrow> calm s (fst (exec_regions env conn sql rs other s1))"
  by (induction rs arbitrary: s1) (simp_all add: case_prod_beta calm_Exec split: option.split)

lemma calm_database_rows: "calm s s1 \<Longrightarrow> calm s (fst (database_rows env name rows s1))"
  by (induction rows arbitrary: s1)
     (simp_all add: case_prod_beta calm_Set_string calm_Set_list split: option.split sum.split)

lemma calm_user_rows: "calm s s1 \<Longrightarrow> calm s (fst (user_rows env name rows s1))"
  by (induction rows arbitrary: s1)
     (simp_all add: case_prod_beta calm_Set_bool split: option.split sum.split)

lemmas calm_steps = calm_Exec calm_Set_string calm_Set_bool calm_Set_list calm_exec_regions

lemma calm_update_name: "calm s (fst (update_name env conn s))"
  by (simp add: update_name_def Let_def case_prod_beta calm_steps calm_refl split: option.split)

lemma calm_update_owner: "calm s (fst (update_owner env conn s))"
  by (simp add: update_owner_def Let_def case_prod_beta calm_steps calm_refl split: option.split)

lemma calm_update_primary_region: "calm s (fst (update_primary_region env conn s))"
  by (simp add: update_primary_region_def Let_def case_prod_beta calm_steps calm_refl split: option.split)

lemma calm_update_regions: "calm s (fst (update_regions env conn s))"
  by (simp add: update_regions_def Let_def case_prod_beta calm_steps calm_refl split: option.split)

lemma calm_update_user: "calm s (fst (update_user env conn s))"
  by (simp add: update_user_def Let_def case_prod_beta calm_steps calm_refl split: option.split)

lemma calm_frames:
  assumes "calm s s'"
  shows "stopCh s' = stopCh s" and "readyCh s' = readyCh s" and "listener s' = listener s"
    and "connects (trace s') = connects (trace s)"
    and "closes (trace s') = closes (trace s)"
    and "connect_after_ready r (trace s') = connect_after_ready r (trace s)"
    and "connect_after_ready r (trace s' @ ys) = connect_after_ready r (trace s @ ys)"
proof -
  from assms obtain es where es: "trace s' = trace s @ es" "list_all quiet es"
    by (auto simp: calm_def)
  show "stopCh s' = stopCh s" "readyCh s' = readyCh s" "listener s' = listener s"
    using assms by (simp_all add: calm_def)
  show "connects (trace s') = connects (trace s)" "closes (trace s') = closes (trace s)"
    using es by (simp_all add: connects_quiet closes_quiet)
  have mid: "connect_after_ready r (trace s' @ zs) = connect_after_ready r (trace s @ zs)" for zs
    using es connect_after_ready_mid [of es r "trace s" zs] by simp
  from mid [of ys]
  show "connect_after_ready r (trace s' @ ys) = connect_after_ready r (trace s @ ys)" .
  from mid [of "[]"] show "connect_after_ready r (trace s') = connect_after_ready r (trace s)"
    by simp
qed

named_theorems frame

lemmas block_frames [frame] =
  calm_frames [OF calm_update_name] calm_frames [OF calm_update_owner]
  calm_frames [OF calm_update_primary_region] calm_frames [OF calm_update_regions]
  calm_frames [OF calm_update_user]
  calm_frames [OF calm_database_rows [OF calm_refl]] calm_frames [OF calm_user_rows [OF calm_refl]]

lemma emit_frame [frame]:
  "trace (emit e s) = trace s @ [e]" "stopCh (emit e s) = stopCh s" "readyCh (emit e s) = readyCh s"
  "listener (emit e s) = listener s" "rd (emit e s) = rd s"
  by (simp_all add: emit_def)

lemma init_frame [frame]:
  "trace (init d) = []" "stopCh (init d) = None" "readyCh (init d) = None"
  "listener (init d) = None" "rd (init d) = d"
  by (simp_all add: init_def)

lemma make_chans_frame [frame]:
  "trace (make_chans s) = trace s" "stopCh (make_chans s) = Some ChOpen"
  "readyCh (make_chans s) = Some ChOpen" "listener (make_chans s) = listener s" "rd (make_chans s) = rd s"
  by (simp_all add: make_chans_def)

lemma SetId_frame [frame]:
  "trace (SetId v s) = trace s" "stopCh (SetId v s) = stopCh s" "readyCh (SetId v s) = readyCh s"
  "listener (SetId v s) = listener s"
  by (simp_all add: SetId_def)

lemma Partial_frame [frame]:
  "trace (Partial b s) = trace s" "stopCh (Partial b s) = stopCh s" "readyCh (Partial b s) = readyCh s"
  "listener (Partial b s) = listener s"
  by (simp_all add: Partial_def)

lemma Set_frame [frame]:
  "trace (fst (Set_string env k v s)) = trace s" "stopCh (fst (Set_string env k v s)) = stopCh s"
  "readyCh (fst (Set_string env k v s)) = readyCh s" "listener (fst (Set_string env k v s)) = listener s"
  "snd (Set_string env k v s) = set_error env k"
  "trace (fst (Set_bool env k b s)) = trace s" "stopCh (fst (Set_bool env k b s)) = stopCh s"
  "readyCh (fst (Set_bool env k b s)) = readyCh s" "listener (fst (Set_bool env k b s)) = listener s"
  "snd (Set_bool env k b s) = set_error env k"
  "trace (fst (Set_list env k l s)) = trace s" "stopCh (fst (Set_list env k l s)) = stopCh s"
  "readyCh (fst (Set_list env k l s)) = readyCh s" "listener (fst (Set_list env k l s)) = listener s"
  "snd (Set_list env k l s) = set_error env k"
  by (simp_all add: Set_string_def Set_bool_def Set_list_def split: option.splits)

lemma call_frame [frame]:
  "fst (pgx_Connect env c s) = emit (EvConnect c) s"
  "snd (pgx_Connect env c s) = (case pgx_connect env c of Some err \<Rightarrow> Inl err | None \<Rightarrow> Inr (Conn c))"
  "fst (Ping env conn s) = emit EvPing s" "snd (Ping env conn s) = conn_ping env"
  "fst (Exec env conn sql s) = emit (EvExec sql) s" "snd (Exec env conn sql s) = conn_exec env sql"
  "fst (QueryRow_id env conn sql a s) = emit (EvQueryRow sql a) s"
  "snd (QueryRow_id env conn sql a s) = scan_id env sql a"
  "fst (QueryRow_id_owner env conn sql a s) = emit (EvQueryRow sql a) s"
  "snd (QueryRow_id_owner env conn sql a s) = scan_id_owner env sql a"
  "fst (QueryRow_schedule env conn sql a s) = emit (EvQueryRow sql a) s"
  "snd (QueryRow_schedule env conn sql a s) = scan_schedule env sql a"
  "fst (Query_databases env conn sql s) = emit (EvQuery sql) s"
  "snd (Query_databases env conn sql s) = query_databases env sql"
  "fst (Query_users env conn sql s) = emit (EvQuery sql) s"
  "snd (Query_users env conn sql s) = query_users env sql"
  by (simp_all add: pgx_Connect_def Ping_def Exec_def QueryRow_id_def QueryRow_id_owner_def
        QueryRow_schedule_def Query_databases_def Query_users_def)

lemma close_stopCh_open [frame]:
  "stopCh s = Some ChOpen \<Longrightarrow>
     close_stopCh s = Some ((emit EvCloseStop s)\<lparr>stopCh := Some ChClosed, listener := None\<rparr>)"
  by (simp add: close_stopCh_def)

lemma tunnel_frame [frame]:
  "stopCh (fst (tryPortForwardIfNeeded env meta lp s)) = stopCh s"
  "rd (fst (tryPortForwardIfNeeded env meta lp s)) = rd s"
  by (auto simp: tryPortForwardIfNeeded_def emit_def split: option.splits forward.splits if_splits)

lemma tunnel_none [frame]:
  "kubeConfig (kubeConn meta) = None \<Longrightarrow> tryPortForwardIfNeeded env meta lp s = (s, None)"
  by (simp add: tryPortForwardIfNeeded_def)

lemma tunnel_up [frame]:
  "kubeConfig (kubeConn meta) \<noteq> None \<Longrightarrow> snd (tryPortForwardIfNeeded env meta lp s) = None \<Longrightarrow>
     trace (fst (tryPortForwardIfNeeded env meta lp s)) = trace s @ [EvListen lp, EvReady]"
  by (auto simp: tryPortForwardIfNeeded_def emit_def split: option.splits forward.splits if_splits)

lemma tunnel_failed [frame]:
  "snd (tryPortForwardIfNeeded env meta lp s) = Some e \<Longrightarrow>
     trace (fst (tryPortForwardIfNeeded env meta lp s)) = trace s"
  by (auto simp: tryPortForwardIfNeeded_def emit_def split: option.splits forward.splits if_splits)

lemma execs_append [simp]: "execs (xs @ ys) = execs xs @ execs ys"
  by (induction xs rule: execs.induct) simp_all

lemma execs_map [simp]: "execs (map EvExec l) = l"
  by (induction l) simp_all

lemma connects_map_EvExec [simp]: "connects (map EvExec l) = []"
  by (induction l) simp_all

lemma closes_map_EvExec [simp]: "closes (map EvExec l) = 0"
  by (induction l) simp_all

lemma connect_after_ready_map_EvExec [simp]:
  "connect_after_ready r (map EvExec l @ ys) = connect_after_ready r ys"
  "connect_after_ready r (map EvExec l) = True"
  by (induction l) simp_all

lemma update_user_trace [frame]:
  "trace (fst (update_user env conn s)) = trace s @ map EvExec (update_user_stmts env (rd s))"
  unfolding update_user_def update_user_stmts_def Let_def
  by (simp add: frame case_prod_beta split: option.split)

lemma rd_frame [frame]:
  "rd (Partial b s) = (rd s)\<lparr>rd_partial := b\<rparr>"
  by (simp add: Partial_def)

lemma tunnel_execs [frame]:
  "execs (trace (fst (tryPortForwardIfNeeded env meta lp s))) = execs (trace s)"
  by (auto simp: tryPortForwardIfNeeded_def emit_def split: option.splits forward.splits if_splits)

section \<open>The shape of every operation's trace\<close>

lemma split_if_P: "P (if c then a else b) = ((c \<longrightarrow> P a) \<and> (\<not> c \<longrightarrow> P b))"
  by simp

lemma split_option_P:
  "P (case x of None \<Rightarrow> a | Some v \<Rightarrow> f v) = ((x = None \<longrightarrow> P a) \<and> (\<forall>v. x = Some v \<longrightarrow> P (f v)))"
  by (simp split: option.split)

lemma split_sum_P:
  "P (case x of Inl a \<Rightarrow> f a | Inr b \<Rightarrow> g b) =
     ((\<forall>a. x = Inl a \<longrightarrow> P (f a)) \<and> (\<forall>b. x = Inr b \<longrightarrow> P (g b)))"
  by (simp split: sum.split)

lemma split_prod_P: "P (case p of (a, b) \<Rightarrow> f a b) = P (f (fst p) (snd p))"
  by (simp add: case_prod_beta)

lemma shaped_leaf:
  "shaped meta d (s, r) =
     (connects (trace s)
        \<in> {[], [strings_Replace (dns meta) ''<local_port>'' (get_string d argLocalPort) 1]}
      \<and> closes (trace s) \<le> 1
      \<and> r \<noteq> Panic CloseOfClosedChannel
      \<and> (kubeConfig (kubeConn meta) = None \<or> connect_after_ready False (trace s)))"
  by (simp add: shaped_def)

lemmas shaped_vcg =
  split_if_P [of "shaped meta d"] split_option_P [of "shaped meta d"]
  split_sum_P [of "shaped meta d"] split_prod_P [of "shaped meta d"] shaped_leaf [of meta d]
  for meta d

lemma shaped_DatabaseCreate: "shaped meta d (resourceDatabaseCreate env meta d)"
  unfolding resourceDatabaseCreate_def Let_def
  by (cases "kubeConfig (kubeConn meta) = None"; simp add: shaped_vcg frame split del: if_split)

lemma shaped_DatabaseRead: "shaped meta d (resourceDatabaseRead env meta d)"
  unfolding resourceDatabaseRead_def Let_def
  by (cases "kubeConfig (kubeConn meta) = None"; simp add: shaped_vcg frame split del: if_split)

lemma shaped_DatabaseUpdate: "shaped meta d (resourceDatabaseUpdate env meta d)"
  unfolding resourceDatabaseUpdate_def Let_def
  by (cases "kubeConfig (kubeConn meta) = None"; simp add: shaped_vcg frame split del: if_split)

lemma shaped_DatabaseDelete: "shaped meta d (resourceDatabaseDelete env meta d)"
  unfolding resourceDatabaseDelete_def Let_def
  by (cases "kubeConfig (kubeConn meta) = None"; simp add: shaped_vcg frame split del: if_split)

lemma shaped_DatabaseImporter: "shaped meta d (resourceDatabaseImporter env meta d)"
  unfolding resourceDatabaseImporter_def Let_def
  by (cases "kubeConfig (kubeConn meta) = None"; simp add: shaped_vcg frame split del: if_split)

lemma shaped_UserCreate: "shaped meta d (resourceUserCreate env meta d)"
  unfolding resourceUserCreate_def Let_def
  by (cases "kubeConfig (kubeConn meta) = None"; simp add: shaped_vcg frame)

lemma shaped_UserRead: "shaped meta d (resourceUserRead env meta d)"
  unfolding resourceUserRead_def Let_def
  by (cases "kubeConfig (kubeConn meta) = None"; simp add: shaped_vcg frame)

lemma shaped_UserUpdate: "shaped meta d (resourceUserUpdate env meta d)"
  unfolding resourceUserUpdate_def Let_def
  by (cases "kubeConfig (kubeConn meta) = None"; simp add: shaped_vcg frame split del: if_split)

lemma shaped_UserDelete: "shaped meta d (resourceUserDelete env meta d)"
  unfolding resourceUserDelete_def Let_def
  by (cases "kubeConfig (kubeConn meta) = None"; simp add: shaped_vcg frame split del: if_split)

lemma shaped_UserImporter: "shaped meta d (resourceUserImporter env meta d)"
proof -
  obtain s r where sr: "resourceUserRead env meta d = (s, r)"
    by (cases "resourceUserRead env meta d")
  with shaped_UserRead [of meta d env] have "shaped meta d (s, r)" by simp
  with sr show ?thesis
    by (cases r) (simp_all add: resourceUserImporter_def shaped_def)
qed

lemma shaped_BackupCreate: "shaped meta d (resourceDatabaseBackupCreate env meta d)"
  unfolding resourceDatabaseBackupCreate_def Let_def
  by (cases "kubeConfig (kubeConn meta) = None"; simp add: shaped_vcg frame split del: if_split)

lemma shaped_BackupRead: "shaped meta d (resourceDatabaseBackupRead env meta d)"
  unfolding resourceDatabaseBackupRead_def Let_def
  by (cases "kubeConfig (kubeConn meta) = None"; simp add: shaped_vcg frame split del: if_split)

lemma shaped_BackupUpdate: "shaped meta d (resourceDatabaseBackupUpdate env meta d)"
  unfolding resourceDatabaseBackupUpdate_def
  by (simp add: shaped_vcg frame)

lemma shaped_BackupDelete: "shaped meta d (resourceDatabaseBackupDelete env meta d)"
  unfolding resourceDatabaseBackupDelete_def Let_def
  by (cases "kubeConfig (kubeConn meta) = None"; simp add: shaped_vcg frame split del: if_split)

lemma shaped_DataSourceRead: "shaped meta d (dataSourceDatabaseRead env meta d)"
  unfolding dataSourceDatabaseRead_def Let_def
  by (cases "kubeConfig (kubeConn meta) = None"; simp add: shaped_vcg frame split del: if_split)

lemma shaped_run: "shaped meta d (run op env meta d)"
  by (cases op)
     (simp_all add: shaped_DatabaseCreate shaped_DatabaseRead shaped_DatabaseUpdate
        shaped_DatabaseDelete shaped_DatabaseImporter shaped_UserCreate shaped_UserRead
        shaped_UserUpdate shaped_UserDelete shaped_UserImporter shaped_BackupCreate
        shaped_BackupRead shaped_BackupUpdate shaped_BackupDelete shaped_DataSourceRead)

lemma connected_leaf:
  "connected meta d (s, r) =
     (r = Ok () \<longrightarrow>
        connects (trace s) =
          [strings_Replace (dns meta) ''<local_port>'' (get_string d argLocalPort) 1])"
  by (simp add: connected_def)

lemmas connected_vcg =
  split_if_P [of "connected meta d"] split_option_P [of "connected meta d"]
  split_sum_P [of "connected meta d"] split_prod_P [of "connected meta d"]
  connected_leaf [of meta d]
  for meta d

lemma tunnel_connects [frame]:
  "connects (trace (fst (tryPortForwardIfNeeded env meta lp s))) = connects (trace s)"
  by (auto simp: tryPortForwardIfNeeded_def emit_def split: option.splits forward.splits if_splits)

lemma connected_DatabaseCreate: "connected meta d (resourceDatabaseCreate env meta d)"
  unfolding resourceDatabaseCreate_def Let_def
  by (simp add: connected_vcg frame split del: if_split)

lemma connected_DatabaseRead: "connected meta d (resourceDatabaseRead env meta d)"
  unfolding resourceDatabaseRead_def Let_def
  by (simp add: connected_vcg frame split del: if_split)

lemma connected_DatabaseUpdate: "connected meta d (resourceDatabaseUpdate env meta d)"
  unfolding resourceDatabaseUpdate_def Let_def
  by (simp add: connected_vcg frame split del: if_split)

lemma connected_DatabaseDelete: "connected meta d (resourceDatabaseDelete env meta d)"
  unfolding resourceDatabaseDelete_def Let_def
  by (simp add: connected_vcg frame split del: if_split)

lemma connected_DatabaseImporter: "connected meta d (resourceDatabaseImporter env meta d)"
  unfolding resourceDatabaseImporter_def Let_def
  by (simp add: connected_vcg frame split del: if_split)

lemma connected_UserCreate: "connected meta d (resourceUserCreate env meta d)"
  unfolding resourceUserCreate_def Let_def
  by (simp add: connected_vcg frame)

lemma connected_UserRead: "connected meta d (resourceUserRead env meta d)"
  unfolding resourceUserRead_def Let_def
  by (simp add: connected_vcg frame)

lemma connected_UserUpdate: "connected meta d (resourceUserUpdate env meta d)"
  unfolding resourceUserUpdate_def Let_def
  by (simp add: connected_vcg frame split del: if_split)

lemma connected_UserDelete: "connected meta d (resourceUserDelete env meta d)"
  unfolding resourceUserDelete_def Let_def
  by (simp add: connected_vcg frame split del: if_split)

lemma connected_UserImporter: "connected meta d (resourceUserImporter env meta d)"
proof -
  obtain s r where sr: "resourceUserRead env meta d = (s, r)"
    by (cases "resourceUserRead env meta d")
  with connected_UserRead [of meta d env] have "connected meta d (s, r)" by simp
  with sr show ?thesis
    by (cases r) (simp_all add: resourceUserImporter_def connected_def)
qed

lemma connected_BackupCreate: "connected meta d (resourceDatabaseBackupCreate env meta d)"
  unfolding resourceDatabaseBackupCreate_def Let_def
  by (simp add: connected_vcg frame split del: if_split)

lemma connected_BackupRead: "connected meta d (resourceDatabaseBackupRead env meta d)"
  unfolding resourceDatabaseBackupRead_def Let_def
  by (simp add: connected_vcg frame split del: if_split)

lemma connected_BackupDelete: "connected meta d (resourceDatabaseBackupDelete env meta d)"
  unfolding resourceDatabaseBackupDelete_def Let_def
  by (simp add: connected_vcg frame split del: if_split)

lemma connected_DataSourceRead: "connected meta d (dataSourceDatabaseRead env meta d)"
  unfolding dataSourceDatabaseRead_def Let_def
  by (simp add: connected_vcg frame split del: if_split)

lemma connected_run: "op \<noteq> BackupUpdate \<Longrightarrow> connected meta d (run op env meta d)"
  by (cases op)
     (simp_all add: connected_DatabaseCreate connected_DatabaseRead connected_DatabaseUpdate
        connected_DatabaseDelete connected_DatabaseImporter connected_UserCreate
        connected_UserRead connected_UserUpdate connected_UserDelete connected_UserImporter
        connected_BackupCreate connected_BackupRead connected_BackupDelete
        connected_DataSourceRead)

text \<open>The runs of the examples.\<close>

lemma ex_env_simps:
  "getenv_HOME ex_env = ''/home/u''" "BuildConfigFromFlags ex_env path = Inr 1"
  "NewForConfig ex_env c = Inr 2" "resolve_pod ex_env ns svc = Some ''cockroachdb-0''"
  "port_forward ex_env pod l r = ForwardReady" "pgx_connect ex_env cs = None"
  "conn_ping ex_env = None" "conn_exec ex_env q = None" "scan_id ex_env q a = Inr 7"
  "scan_id_owner ex_env q a = Inr (7, ''root'')" "set_error ex_env k = None"
  by (simp_all add: ex_env_def)

lemma ex_d_simps:
  "get_string ex_d argLocalPort = ''26258''" "get_string ex_d dbNameAttr = ''db''"
  "get_string ex_d dbUsernameAttr = ''bob''" "get_string ex_d dbPasswordAttr = ''pw''"
  "get_string ex_d dbRolesAttr = ''LOGIN''" "get_bool ex_d dbAdminAttr = False"
  "rd_id ex_d = ''bob''"
  by (simp_all add: ex_d_def ex_attrs_def get_string_def get_bool_def arg_defs db_defs user_defs)

lemma ex_tunnel:
  "tryPortForwardIfNeeded ex_env ex_meta lp s =
     ((emit EvReady (emit (EvListen lp) s))\<lparr>readyCh := Some ChClosed, listener := Some lp\<rparr>, None)"
  by (simp add: tryPortForwardIfNeeded_def ex_env_simps ex_meta_def)

lemma ex_dns:
  "strings_Replace (dns ex_meta) ''<local_port>'' ''26258'' 1 =
     ''postgresql://u:p@localhost:26258/system?sslmode=disable''"
  by (simp add: ex_meta_def strings_Replace.simps)

lemma ex_trace_DatabaseDelete:
  "trace (fst (resourceDatabaseDelete ex_env ex_meta ex_d)) =
     [EvListen ''26258'', EvReady,
      EvConnect ''postgresql://u:p@localhost:26258/system?sslmode=disable'', EvPing,
      EvExec (''DROP DATABASE '' @ QuoteIdentifier ''db''), EvCloseStop]"
  unfolding resourceDatabaseDelete_def Let_def
  by (simp add: ex_tunnel ex_env_simps ex_d_simps ex_dns frame case_prod_beta)

lemma ex_env_refused_simps:
  "resolve_pod ex_env_refused ns svc = Some ''cockroachdb-0''"
  "port_forward ex_env_refused pod l r = ForwardReady"
  "pgx_connect ex_env_refused cs = Some ''connection refused''"
  by (simp_all add: ex_env_refused_def ex_env_def)

lemma ex_tunnel_refused:
  "tryPortForwardIfNeeded ex_env_refused ex_meta lp s =
     ((emit EvReady (emit (EvListen lp) s))\<lparr>readyCh := Some ChClosed, listener := Some lp\<rparr>, None)"
  by (simp add: tryPortForwardIfNeeded_def ex_env_refused_simps ex_meta_def)

lemma ex_expand_home:
  "expand_home ex_env ''~/.kube/config'' = Inr ''/home/u/.kube/config''"
  by (simp add: expand_home_def strings_Contains_def homeDir_def ex_env_simps strings_Replace.simps)

lemma ex_configure:
  "configure ex_env ex_pd =
     ([EvBuildConfigFromFlags ''/home/u/.kube/config'', EvNewForConfig], Ok ex_meta)"
proof -
  have kc: "pd_kube_config ex_pd = ex_block # []" by (simp add: ex_pd_def)
  show ?thesis
    unfolding configure_kube [OF kc]
    by (simp add: ex_pd_def ex_block_def ex_expand_home ex_env_simps ex_meta_def)
qed

lemma ex_refused_DatabaseCreate:
  "resourceDatabaseCreate ex_env_refused ex_meta ex_d =
     (\<lparr>trace = [EvListen ''26258'', EvReady,
                EvConnect ''postgresql://u:p@localhost:26258/system?sslmode=disable''],
       stopCh = Some ChOpen, readyCh = Some ChClosed, listener = Some ''26258'', rd = ex_d\<rparr>,
      Fail (FromErr ''connection refused''))"
  unfolding resourceDatabaseCreate_def Let_def
  by (simp add: ex_tunnel_refused ex_env_refused_simps ex_d_simps ex_dns pgx_Connect_def emit_def
        make_chans_def init_def split del: if_split)

section \<open>Failures leave the stop channel open\<close>

lemma open_on_failure_leaf:
  "open_on_failure (s, r) = (case r of Fail dg \<Rightarrow> stopCh s \<noteq> Some ChClosed | _ \<Rightarrow> True)"
  by (cases r) (simp_all add: open_on_failure_def)

lemmas open_vcg =
  split_if_P [of open_on_failure] split_option_P [of open_on_failure]
  split_sum_P [of open_on_failure] split_prod_P [of open_on_failure] open_on_failure_leaf

lemma open_DatabaseCreate: "open_on_failure (resourceDatabaseCreate env meta d)"
  unfolding resourceDatabaseCreate_def Let_def
  by (simp add: open_vcg frame split del: if_split)

lemma open_DatabaseUpdate: "open_on_failure (resourceDatabaseUpdate env meta d)"
  unfolding resourceDatabaseUpdate_def Let_def
  by (simp add: open_vcg frame split del: if_split)

lemma open_DatabaseDelete: "open_on_failure (resourceDatabaseDelete env meta d)"
  unfolding resourceDatabaseDelete_def Let_def
  by (simp add: open_vcg frame split del: if_split)

lemma open_DatabaseImporter: "open_on_failure (resourceDatabaseImporter env meta d)"
  unfolding resourceDatabaseImporter_def Let_def
  by (simp add: open_vcg frame split del: if_split)

lemma open_UserCreate: "open_on_failure (resourceUserCreate env meta d)"
  unfolding resourceUserCreate_def Let_def
  by (simp add: open_vcg frame)

lemma open_UserRead: "open_on_failure (resourceUserRead env meta d)"
  unfolding resourceUserRead_def Let_def
  by (simp add: open_vcg frame)

lemma open_UserUpdate: "open_on_failure (resourceUserUpdate env meta d)"
  unfolding resourceUserUpdate_def Let_def
  by (simp add: open_vcg frame split del: if_split)

lemma open_UserDelete: "open_on_failure (resourceUserDelete env meta d)"
  unfolding resourceUserDelete_def Let_def
  by (simp add: open_vcg frame split del: if_split)

lemma open_UserImporter: "open_on_failure (resourceUserImporter env meta d)"
proof -
  obtain s r where sr: "resourceUserRead env meta d = (s, r)"
    by (cases "resourceUserRead env meta d")
  with open_UserRead [of env meta d] have "open_on_failure (s, r)" by simp
  with sr show ?thesis
    by (cases r) (simp_all add: resourceUserImporter_def open_on_failure_def)
qed

lemma open_BackupCreate: "open_on_failure (resourceDatabaseBackupCreate env meta d)"
  unfolding resourceDatabaseBackupCreate_def Let_def
  by (simp add: open_vcg frame split del: if_split)

lemma open_BackupRead: "open_on_failure (resourceDatabaseBackupRead env meta d)"
  unfolding resourceDatabaseBackupRead_def Let_def
  by (simp add: open_vcg frame split del: if_split)

lemma open_BackupUpdate: "open_on_failure (resourceDatabaseBackupUpdate env meta d)"
  unfolding resourceDatabaseBackupUpdate_def
  by (simp add: open_vcg frame)

lemma open_BackupDelete: "open_on_failure (resourceDatabaseBackupDelete env meta d)"
  unfolding resourceDatabaseBackupDelete_def Let_def
  by (simp add: open_vcg frame split del: if_split)

lemma open_DataSourceRead: "open_on_failure (dataSourceDatabaseRead env meta d)"
  unfolding dataSourceDatabaseRead_def Let_def
  by (simp add: open_vcg frame split del: if_split)

lemma open_before_lookup_leaf:
  "open_before_lookup (s, r) = (\<forall>e. r = Fail (FromErr e) \<longrightarrow> stopCh s \<noteq> Some ChClosed)"
  by (simp add: open_before_lookup_def)

lemmas lookup_vcg =
  split_if_P [of open_before_lookup] split_option_P [of open_before_lookup]
  split_sum_P [of open_before_lookup] split_prod_P [of open_before_lookup]
  open_before_lookup_leaf

lemma open_DatabaseRead: "open_before_lookup (resourceDatabaseRead env meta d)"
  unfolding resourceDatabaseRead_def Let_def
  by (simp add: lookup_vcg frame split del: if_split)

section \<open>The statements of the user resource\<close>

lemma issues_leaf: "issues S (s, r) = (execs (trace s) \<in> S)"
  by (simp add: issues_def)

lemmas issues_vcg =
  split_if_P [of "issues S"] split_option_P [of "issues S"]
  split_sum_P [of "issues S"] split_prod_P [of "issues S"] issues_leaf [of S]
  for S

lemma issues_UserCreate:
  "issues {[],
      [''CREATE USER '' @ QuoteIdentifier (get_string d dbUsernameAttr) @ '' WITH PASSWORD ''
         @ [CHR 0x27] @ get_string d dbPasswordAttr @ [CHR 0x27] @ '' '' @ get_string d dbRolesAttr],
      [''CREATE USER '' @ QuoteIdentifier (get_string d dbUsernameAttr) @ '' WITH PASSWORD ''
         @ [CHR 0x27] @ get_string d dbPasswordAttr @ [CHR 0x27] @ '' '' @ get_string d dbRolesAttr,
       ''GRANT admin TO '' @ QuoteIdentifier (get_string d dbUsernameAttr) @ '' WITH ADMIN OPTION'']}
     (resourceUserCreate env meta d)"
  unfolding resourceUserCreate_def Let_def
  by (simp add: issues_vcg frame apostrophe_def)

lemma issues_UserUpdate:
  "issues {[],
      [''ALTER USER '' @ QuoteIdentifier (rd_id d) @ '' WITH PASSWORD ''
         @ [CHR 0x27] @ strs (rd_new d) dbPasswordAttr @ [CHR 0x27] @ '' ''
         @ strs (rd_new d) dbRolesAttr],
      [''ALTER USER '' @ QuoteIdentifier (rd_id d) @ '' WITH PASSWORD ''
         @ [CHR 0x27] @ strs (rd_new d) dbPasswordAttr @ [CHR 0x27] @ '' ''
         @ strs (rd_new d) dbRolesAttr,
       ''REVOKE admin from '' @ QuoteIdentifier (rd_id d)],
      [''ALTER USER '' @ QuoteIdentifier (rd_id d) @ '' WITH PASSWORD ''
         @ [CHR 0x27] @ strs (rd_new d) dbPasswordAttr @ [CHR 0x27] @ '' ''
         @ strs (rd_new d) dbRolesAttr,
       ''GRANT admin to '' @ QuoteIdentifier (rd_id d) @ '' WITH ADMIN OPTION'']}
     (resourceUserUpdate env meta d)"
  unfolding resourceUserUpdate_def Let_def
  by (simp add: issues_vcg frame apostrophe_def update_user_stmts_def Let_def HasChange_def)

lemma executed_leaf: "executed l (s, r) = (r = Ok () \<longrightarrow> execs (trace s) = l)"
  by (simp add: executed_def)

lemmas executed_vcg =
  split_if_P [of "executed l"] split_option_P [of "executed l"]
  split_sum_P [of "executed l"] split_prod_P [of "executed l"] executed_leaf [of l]
  for l

lemma executed_UserCreate: "executed (create_user_stmts d) (resourceUserCreate env meta d)"
  unfolding resourceUserCreate_def Let_def
  by (simp add: executed_vcg frame apostrophe_def create_user_stmts_def)

lemma update_user_done:
  "snd (update_user env conn s) = None \<Longrightarrow> update_user_stmts env (rd s) = alter_user_stmts (rd s)"
  unfolding update_user_def update_user_stmts_def alter_user_stmts_def Let_def
  by (auto simp: frame case_prod_beta apostrophe_def split: option.splits if_splits)

lemma HasChange_partial [simp]: "HasChange (d\<lparr>rd_partial := b\<rparr>) k = HasChange d k"
  by (simp add: HasChange_def)

lemma alter_user_stmts_partial [simp]:
  "alter_user_stmts (d\<lparr>rd_partial := b\<rparr>) = alter_user_stmts d"
  by (simp add: alter_user_stmts_def)

lemma executed_UserUpdate: "executed (alter_user_stmts d) (resourceUserUpdate env meta d)"
proof (cases "get_string d argLocalPort = []")
  case True
  then show ?thesis
    by (simp add: resourceUserUpdate_def Let_def executed_def)
next
  case False
  define lp where "lp = get_string d argLocalPort"
  define c where "c = strings_Replace (dns meta) ''<local_port>'' lp 1"
  define s2 where "s2 = fst (tryPortForwardIfNeeded env meta lp (make_chans (Partial True (init d))))"
  define s4 where "s4 = emit EvPing (emit (EvConnect c) s2)"
  have rd4: "rd s4 = d\<lparr>rd_partial := True\<rparr>"
    by (simp add: s4_def s2_def frame)
  have ex4: "execs (trace s4) = []"
    by (simp add: s4_def s2_def frame)
  have st4: "stopCh s4 = Some ChOpen"
    by (simp add: s4_def s2_def frame)
  show ?thesis
  proof (cases "snd (resourceUserUpdate env meta d) = Ok ()")
    case False
    then show ?thesis by (simp add: executed_def)
  next
    case True
    with \<open>get_string d argLocalPort \<noteq> []\<close>
    have none: "snd (update_user env (Conn c) s4) = None"
      unfolding resourceUserUpdate_def Let_def s4_def s2_def c_def lp_def
      by (simp add: case_prod_beta frame split: option.splits sum.splits if_splits)
    have "execs (trace (fst (resourceUserUpdate env meta d)))
            = execs (trace (fst (update_user env (Conn c) s4)))"
      using True \<open>get_string d argLocalPort \<noteq> []\<close> st4
      unfolding resourceUserUpdate_def Let_def s4_def s2_def c_def lp_def
      by (simp add: case_prod_beta frame split: option.splits sum.splits if_splits)
    also have "\<dots> = alter_user_stmts d"
      using update_user_done [OF none] by (simp add: update_user_trace ex4 rd4)
    finally show ?thesis by (simp add: executed_def)
  qed
qed

lemma ex_d_changed_simps:
  "get_string ex_d_changed argLocalPort = ''26258''" "rd_id ex_d_changed = ''bob''"
  "strs (rd_new ex_d_changed) dbPasswordAttr = ''pw2''"
  "strs (rd_new ex_d_changed) dbRolesAttr = ''LOGIN''"
  "bools (rd_old ex_d_changed) dbAdminAttr = False" "bools (rd_new ex_d_changed) dbAdminAttr = True"
  "HasChange ex_d_changed dbPasswordAttr" "HasChange ex_d_changed dbAdminAttr"
  by (simp_all add: ex_d_changed_def ex_d_def ex_attrs_def get_string_def HasChange_def
        arg_defs user_defs)

lemma ex_update_user:
  "rd s = ex_d_changed\<lparr>rd_partial := True\<rparr> \<Longrightarrow> snd (update_user ex_env conn s) = None"
  unfolding update_user_def Let_def
  by (simp add: ex_d_changed_simps ex_env_simps frame case_prod_beta HasChange_def
        del: HasChange_partial)

lemma ex_result_UserUpdate: "snd (resourceUserUpdate ex_env ex_meta ex_d_changed) = Ok ()"
  unfolding resourceUserUpdate_def Let_def
  by (simp add: ex_tunnel ex_env_simps ex_d_changed_simps ex_dns ex_update_user frame case_prod_beta)

lemma ex_result_DatabaseDelete: "snd (resourceDatabaseDelete ex_env ex_meta ex_d) = Ok ()"
  unfolding resourceDatabaseDelete_def Let_def
  by (simp add: ex_tunnel ex_env_simps ex_d_simps ex_dns frame case_prod_beta)

lemma ex_result_UserCreate: "snd (resourceUserCreate ex_env ex_meta ex_d) = Ok ()"
  unfolding resourceUserCreate_def Let_def
  by (simp add: ex_tunnel ex_env_simps ex_d_simps ex_dns frame case_prod_beta)

lemma ex_trace_UserCreate:
  "execs (trace (fst (resourceUserCreate ex_env ex_meta ex_d))) =
     [''CREATE USER '' @ QuoteIdentifier ''bob'' @ '' WITH PASSWORD '' @ [CHR 0x27] @ ''pw''
        @ [CHR 0x27] @ '' LOGIN'']"
  unfolding resourceUserCreate_def Let_def
  by (simp add: ex_tunnel ex_env_simps ex_d_simps ex_dns frame case_prod_beta apostrophe_def)

lemma ex_QuoteIdentifier: "QuoteIdentifier ''bob'' = [CHR 0x22] @ ''bob'' @ [CHR 0x22]"
  by (simp add: QuoteIdentifier_def strings_Replace.simps)

section \<open>The claims\<close>

text \<open>
  C1. The claim: every operation closes its stop channel on every exit path, early
  error returns included. The code closes it on the success path only. For every
  operation and every world, a run that returns a diagnostic leaves the stop channel
  not closed (open, or not yet made), apart from \<open>resourceDatabaseRead\<close>, whose
  \<open>Cannot find database\<close> diagnostic comes after its \<open>close(stopCh)\<close>, and whose other
  diagnostics (all built by \<open>diag.FromErr\<close>) come before it.
\<close>

theorem stop_channel_open_on_failure:
  assumes "snd (run op env meta d) = Fail dg"
    and "op \<noteq> DatabaseRead \<or> (\<exists>e. dg = FromErr e)"
  shows "stopCh (fst (run op env meta d)) \<noteq> Some ChClosed"
proof (cases "op = DatabaseRead")
  case True
  with assms obtain e where e: "snd (resourceDatabaseRead env meta d) = Fail (FromErr e)"
    by auto
  have "open_before_lookup (resourceDatabaseRead env meta d)"
    by (rule open_DatabaseRead)
  with e True show ?thesis by (simp add: open_before_lookup_def)
next
  case False
  then have "open_on_failure (run op env meta d)"
    by (cases op)
       (simp_all add: open_DatabaseCreate open_DatabaseUpdate open_DatabaseDelete
          open_DatabaseImporter open_UserCreate open_UserRead open_UserUpdate open_UserDelete
          open_UserImporter open_BackupCreate open_BackupRead open_BackupUpdate
          open_BackupDelete open_DataSourceRead)
  with assms(1) show ?thesis by (simp add: open_on_failure_def)
qed

text \<open>
  At the example: the tunnel is up, the server refuses the connection, and
  \<open>resourceDatabaseCreate\<close> returns the connection error with its stop channel open and
  the listener still bound on port 26258.
\<close>

theorem stop_channel_open_on_failure_witness:
  "snd (run DatabaseCreate ex_env_refused ex_meta ex_d) = Fail (FromErr ''connection refused'')
   \<and> stopCh (fst (run DatabaseCreate ex_env_refused ex_meta ex_d)) = Some ChOpen
   \<and> listener (fst (run DatabaseCreate ex_env_refused ex_meta ex_d)) = Some ''26258''
   \<and> closes (trace (fst (run DatabaseCreate ex_env_refused ex_meta ex_d))) = 0"
  using stop_channel_open_on_failure
          [of DatabaseCreate ex_env_refused ex_meta ex_d "FromErr ''connection refused''"]
  by (simp add: ex_refused_DatabaseCreate)

text \<open>
  C2. The claim: without a \<open>kube_config\<close> block, configuration succeeds with the
  directly supplied \<open>dns\<close>. The code reads the key \<open>"argDns"\<close>, which the schema does not
  have (its key is \<open>"dns"\<close>), and asserts the resulting \<open>nil\<close> to be a string: for every
  configuration without a \<open>kube_config\<close> block no client is returned, and with
  non-empty credentials \<open>configure\<close> panics, whatever \<open>dns\<close> is.
\<close>

theorem direct_dns_never_configured:
  assumes "pd_kube_config pd = []"
  shows "snd (configure env pd) \<noteq> Ok a
         \<and> (pd_username pd = [] \<or> pd_password pd = []
            \<or> configure env pd = ([], Panic InterfaceConversion))"
  using configure_direct [OF assms, of env] by simp

theorem direct_dns_never_configured_witness:
  "pd_kube_config ex_pd_direct = []
   \<and> pd_dns ex_pd_direct = ''postgresql://u:p@db.example:26257/system?sslmode=disable''
   \<and> configure ex_env ex_pd_direct = ([], Panic InterfaceConversion)"
  using direct_dns_never_configured [of ex_pd_direct ex_env zero_client]
  by (simp add: ex_pd_direct_def)

text \<open>
  C3. With a \<open>kube_config\<close> block whose namespace or service name is empty,
  \<open>configure\<close> returns a diagnostic and no client, and binds no listener. The
  diagnostic is the one that names the missing namespace (or service name), unless
  an earlier step returned first: empty credentials, or an error of the home
  directory or of the Kubernetes client library.
\<close>

theorem empty_namespace_rejected:
  assumes "pd_kube_config pd = kb # rest" and "kb_namespace kb = [] \<or> kb_service_name kb = []"
  shows "(\<exists>dg. snd (configure env pd) = Fail dg)
         \<and> EvListen p \<notin> set (fst (configure env pd))
         \<and> ((\<exists>e. snd (configure env pd) = Fail (FromErr e))
            \<or> pd_username pd = [] \<or> pd_password pd = []
            \<or> snd (configure env pd) =
                 Fail (Errorf (if kb_namespace kb = [] then ''Cockroachdb namespace is not specified''
                               else ''Cockroachdb service name is not specified'')))"
  using assms(2) unfolding configure_kube [OF assms(1)]
  by (auto split: sum.split)

theorem empty_namespace_rejected_witness:
  "pd_kube_config ex_pd_no_namespace = [ex_block\<lparr>kb_namespace := []\<rparr>]
   \<and> kb_namespace (ex_block\<lparr>kb_namespace := []\<rparr>) = []
   \<and> configure ex_env ex_pd_no_namespace =
       ([EvBuildConfigFromFlags ''/home/u/.kube/config'', EvNewForConfig],
        Fail (Errorf ''Cockroachdb namespace is not specified''))"
proof -
  have kc: "pd_kube_config ex_pd_no_namespace = ex_block\<lparr>kb_namespace := []\<rparr> # []"
    by (simp add: ex_pd_no_namespace_def)
  have ns: "kb_namespace (ex_block\<lparr>kb_namespace := []\<rparr>) = []
            \<or> kb_service_name (ex_block\<lparr>kb_namespace := []\<rparr>) = []"
    by simp
  from empty_namespace_rejected [OF kc ns, of ex_env "''26258''"]
  have "\<exists>dg. snd (configure ex_env ex_pd_no_namespace) = Fail dg" by simp
  moreover have "configure ex_env ex_pd_no_namespace =
       ([EvBuildConfigFromFlags ''/home/u/.kube/config'', EvNewForConfig],
        Fail (Errorf ''Cockroachdb namespace is not specified''))"
    unfolding configure_kube [OF kc]
    by (simp add: ex_pd_no_namespace_def ex_pd_def ex_block_def ex_expand_home ex_env_simps)
  ultimately show ?thesis using kc by simp
qed

text \<open>
  C4. With Kubernetes configuration, no operation attempts its SQL connection before
  the readiness signal of its tunnel has fired: in every run, every \<open>EvConnect\<close> comes
  after an \<open>EvReady\<close>. (When the tunnel fails, the run ends before \<open>pgx.Connect\<close>.)
\<close>

theorem ready_before_connect:
  assumes "kubeConfig (kubeConn meta) \<noteq> None"
  shows "connect_after_ready False (trace (fst (run op env meta d)))"
  using shaped_run [of meta d op env] assms by (simp add: shaped_def)

theorem ready_before_connect_witness:
  "kubeConfig (kubeConn ex_meta) \<noteq> None
   \<and> trace (fst (run DatabaseDelete ex_env ex_meta ex_d)) =
       [EvListen ''26258'', EvReady,
        EvConnect ''postgresql://u:p@localhost:26258/system?sslmode=disable'', EvPing,
        EvExec (''DROP DATABASE '' @ QuoteIdentifier ''db''), EvCloseStop]
   \<and> connect_after_ready False (trace (fst (run DatabaseDelete ex_env ex_meta ex_d)))"
proof -
  have k: "kubeConfig (kubeConn ex_meta) \<noteq> None" by (simp add: ex_meta_def)
  from ready_before_connect [OF k, of DatabaseDelete ex_env ex_d] k
  show ?thesis by (simp add: ex_trace_DatabaseDelete)
qed

text \<open>
  C5. The claim: closing the stop signal twice in succession never panics. The stop
  signal is a plain Go channel closed with \<open>close\<close>: on the channel an operation makes,
  the first \<open>close\<close> succeeds and the second panics.
\<close>

theorem second_close_panics:
  "close_stopCh (make_chans (init ex_d)) \<noteq> None
   \<and> Option.bind (close_stopCh (make_chans (init ex_d))) close_stopCh = None"
  by (simp add: close_stopCh_def make_chans_def init_def emit_def)

text \<open>
  C5, as the code has it: closing an open stop channel succeeds whether or not
  readiness was reached (\<open>close_stopCh\<close> does not read \<open>readyCh\<close>), and no operation
  closes its stop channel more than once, so no run panics on a closed channel.
\<close>

theorem stop_closed_at_most_once:
  "(stopCh s = Some ChOpen \<longrightarrow> close_stopCh s \<noteq> None)
   \<and> closes (trace (fst (run op env meta d))) \<le> 1
   \<and> snd (run op env meta d) \<noteq> Panic CloseOfClosedChannel"
  using shaped_run [of meta d op env] by (simp add: shaped_def close_stopCh_def)

theorem stop_closed_at_most_once_witness:
  "stopCh (make_chans (init ex_d)) = Some ChOpen \<and> readyCh (make_chans (init ex_d)) = Some ChOpen
   \<and> close_stopCh (make_chans (init ex_d)) \<noteq> None
   \<and> closes (trace (fst (run DatabaseDelete ex_env ex_meta ex_d))) = 1"
  using stop_closed_at_most_once [of "make_chans (init ex_d)" DatabaseDelete ex_env ex_meta ex_d]
  by (simp add: ex_trace_DatabaseDelete make_chans_def)

text \<open>
  C6. Every operation hands \<open>pgx.Connect\<close> at most one connection string, and it is the
  client's \<open>dns\<close> with the first \<open><local_port>\<close> replaced by the operation's
  \<open>local_port\<close>; every operation that succeeds has handed it exactly that string once
  (\<open>resourceDatabaseBackupUpdate\<close> apart, whose body is empty). This holds for every
  client, also one that holds a directly supplied \<open>dns\<close>. A client that \<open>configure\<close>
  returned comes from a \<open>kube_config\<close> block, and its \<open>dns\<close> is the template
  \<open>postgresql://<username>:<password>@localhost:<local_port>/system?sslmode=disable\<close>.
\<close>

theorem connection_string_from_template:
  "connects (trace (fst (run op env meta d)))
     \<in> {[], [strings_Replace (dns meta) ''<local_port>'' (get_string d argLocalPort) 1]}
   \<and> (op \<noteq> BackupUpdate \<and> snd (run op env meta d) = Ok () \<longrightarrow>
        connects (trace (fst (run op env meta d))) =
          [strings_Replace (dns meta) ''<local_port>'' (get_string d argLocalPort) 1])
   \<and> (snd (configure env' pd) = Ok meta \<longrightarrow>
        pd_kube_config pd \<noteq> []
        \<and> dns meta = ''postgresql://'' @ pd_username pd @ '':'' @ pd_password pd
                     @ ''@localhost:<local_port>/system?sslmode=disable'')"
proof -
  have "pd_kube_config pd \<noteq> []
        \<and> dns meta = ''postgresql://'' @ pd_username pd @ '':'' @ pd_password pd
                     @ ''@localhost:<local_port>/system?sslmode=disable''"
    if ok: "snd (configure env' pd) = Ok meta"
  proof (cases "pd_kube_config pd")
    case Nil
    with ok show ?thesis by (simp add: configure_direct split: if_splits)
  next
    case (Cons kb rest)
    from ok show ?thesis unfolding configure_kube [OF Cons]
      by (auto simp: Cons split: sum.splits if_splits)
  qed
  moreover have "connects (trace (fst (run op env meta d))) =
          [strings_Replace (dns meta) ''<local_port>'' (get_string d argLocalPort) 1]"
    if "op \<noteq> BackupUpdate" and "snd (run op env meta d) = Ok ()"
    using connected_run [OF that(1), of meta d env] that(2) by (simp add: connected_def)
  ultimately show ?thesis
    using shaped_run [of meta d op env] by (simp add: shaped_def)
qed

theorem connection_string_from_template_witness:
  "snd (configure ex_env ex_pd) = Ok ex_meta
   \<and> dns ex_meta = ''postgresql://u:p@localhost:<local_port>/system?sslmode=disable''
   \<and> get_string ex_d argLocalPort = ''26258''
   \<and> snd (run DatabaseDelete ex_env ex_meta ex_d) = Ok ()
   \<and> connects (trace (fst (run DatabaseDelete ex_env ex_meta ex_d))) =
       [''postgresql://u:p@localhost:26258/system?sslmode=disable'']
   \<and> snd (run UserUpdate ex_env ex_meta ex_d_changed) = Ok ()
   \<and> connects (trace (fst (run UserUpdate ex_env ex_meta ex_d_changed))) =
       [''postgresql://u:p@localhost:26258/system?sslmode=disable'']"
proof -
  have a: "snd (configure ex_env ex_pd) = Ok ex_meta" by (simp add: ex_configure)
  have b: "pd_username ex_pd = ''u''" "pd_password ex_pd = ''p''" by (simp_all add: ex_pd_def)
  have c: "strings_Replace ''postgresql://u:p@localhost:<local_port>/system?sslmode=disable''
             ''<local_port>'' ''26258'' 1 =
           ''postgresql://u:p@localhost:26258/system?sslmode=disable''"
    by (simp add: strings_Replace.simps)
  from connection_string_from_template [of DatabaseDelete ex_env ex_meta ex_d ex_env ex_pd]
       connection_string_from_template [of UserUpdate ex_env ex_meta ex_d_changed ex_env ex_pd] a b
  show ?thesis
    by (simp add: ex_result_DatabaseDelete ex_result_UserUpdate ex_d_simps ex_d_changed_simps c)
qed

text \<open>
  C7. The claim: every resource's \<open>local_port\<close> has a default among 26257 to 26260.
  The \<open>local_port\<close> of \<open>cockroach_user\<close> is \<open>Required\<close> and declares no default.
\<close>

theorem user_local_port_has_no_default: "\<not> has_port_default resourceUser"
  by (simp add: has_port_default_def resourceUser_def attr_def arg_defs user_defs)

text \<open>
  C7, as the code has it: \<open>kube_config_path\<close> defaults to \<open>~/.kube/config\<close> and
  \<open>remote_port\<close> to \<open>26257\<close>; a configuration with a \<open>kube_config\<close> block yields a client
  only if its namespace and service name are not empty; \<open>local_port\<close> defaults to
  \<open>26258\<close> for \<open>cockroach_database\<close>, \<open>26259\<close> for the data source and \<open>26260\<close> for
  \<open>cockroach_database_backup\<close>, and is required, with no default, for \<open>cockroach_user\<close>.
\<close>

theorem configuration_surface:
  "map_option Default (map_of kubeConfigSchema argKubeConfigPath) = Some (Some (VString ''~/.kube/config''))
   \<and> map_option Default (map_of kubeConfigSchema argRemotePort) = Some (Some (VString ''26257''))
   \<and> (snd (configure env pd) = Ok a \<and> pd_kube_config pd = kb # rest
        \<longrightarrow> kb_namespace kb \<noteq> [] \<and> kb_service_name kb \<noteq> [])
   \<and> map_option Default (map_of resourceDatabase argLocalPort) = Some (Some (VString ''26258''))
   \<and> map_option Default (map_of dataSourceDatabase argLocalPort) = Some (Some (VString ''26259''))
   \<and> map_option Default (map_of resourceDatabaseBackup argLocalPort) = Some (Some (VString ''26260''))
   \<and> map_option (\<lambda>a. (Required a, Default a)) (map_of resourceUser argLocalPort) = Some (True, None)"
proof -
  have "kb_namespace kb \<noteq> [] \<and> kb_service_name kb \<noteq> []"
    if "snd (configure env pd) = Ok a" and "pd_kube_config pd = kb # rest"
    using that(1) unfolding configure_kube [OF that(2)]
    by (auto split: sum.splits if_splits)
  then show ?thesis
    by (simp add: kubeConfigSchema_def resourceDatabase_def dataSourceDatabase_def
          resourceDatabaseBackup_def resourceUser_def attr_def arg_defs db_defs user_defs
          backup_defs)
qed

theorem configuration_surface_witness:
  "snd (configure ex_env ex_pd) = Ok ex_meta \<and> pd_kube_config ex_pd = [ex_block]
   \<and> kb_namespace ex_block = ''crdb'' \<and> kb_service_name ex_block = ''cockroachdb-public''"
proof -
  have a: "snd (configure ex_env ex_pd) = Ok ex_meta" by (simp add: ex_configure)
  have b: "pd_kube_config ex_pd = [ex_block]" by (simp add: ex_pd_def)
  have c: "kb_namespace ex_block = ''crdb''" "kb_service_name ex_block = ''cockroachdb-public''"
    by (simp_all add: ex_block_def)
  from configuration_surface [of ex_env ex_pd ex_meta ex_block "[]"] a b c
  show ?thesis by simp
qed

text \<open>
  C8. When \<open>kube_config_path\<close> contains \<open>~\<close> (and the credentials are not empty, so that
  \<open>configure\<close> gets that far): if \<open>HOME\<close> is empty, \<open>configure\<close> fails with the error of
  \<open>homeDir\<close> and loads nothing; otherwise the first library call loads the path in
  which every \<open>~\<close> is replaced by \<open>HOME\<close>.
\<close>

theorem home_expanded_before_load:
  assumes "pd_kube_config pd = kb # rest" and "strings_Contains (kb_kube_config_path kb) ''~''"
    and "pd_username pd \<noteq> []" and "pd_password pd \<noteq> []"
  shows "(getenv_HOME env = [] \<longrightarrow>
            configure env pd = ([], Fail (FromErr ''unable to get HOME directory'')))
         \<and> (getenv_HOME env \<noteq> [] \<longrightarrow>
            take 1 (fst (configure env pd)) =
              [EvBuildConfigFromFlags
                 (strings_Replace (kb_kube_config_path kb) ''~'' (getenv_HOME env) (- 1))])"
  using assms(2-4) unfolding configure_kube [OF assms(1)]
  by (auto simp: expand_home_def homeDir_def split: sum.split)

theorem home_expanded_before_load_witness:
  "pd_kube_config ex_pd = [ex_block] \<and> strings_Contains (kb_kube_config_path ex_block) ''~''
   \<and> pd_username ex_pd \<noteq> [] \<and> pd_password ex_pd \<noteq> [] \<and> getenv_HOME ex_env = ''/home/u''
   \<and> take 1 (fst (configure ex_env ex_pd)) = [EvBuildConfigFromFlags ''/home/u/.kube/config'']
   \<and> configure (ex_env\<lparr>getenv_HOME := []\<rparr>) ex_pd = ([], Fail (FromErr ''unable to get HOME directory''))"
proof -
  have kc: "pd_kube_config ex_pd = ex_block # []" by (simp add: ex_pd_def)
  have tilde: "strings_Contains (kb_kube_config_path ex_block) ''~''"
    by (simp add: ex_block_def strings_Contains_def)
  have u: "pd_username ex_pd \<noteq> []" and p: "pd_password ex_pd \<noteq> []" by (simp_all add: ex_pd_def)
  have r: "strings_Replace (kb_kube_config_path ex_block) ''~'' ''/home/u'' (- 1) = ''/home/u/.kube/config''"
    by (simp add: ex_block_def strings_Replace.simps)
  from home_expanded_before_load [OF kc tilde u p, of ex_env]
       home_expanded_before_load [OF kc tilde u p, of "ex_env\<lparr>getenv_HOME := []\<rparr>"]
  show ?thesis using kc tilde u p r by (simp add: ex_env_simps)
qed

text \<open>
  C9. The first statement \<open>resourceUserCreate\<close> executes is \<open>CREATE USER\<close>, the quoted
  user name, \<open>WITH PASSWORD '\<close>, the password as it is, \<open>' \<close> and the roles as they are
  (followed at most by the \<open>GRANT admin\<close> statement), and a create that succeeds has
  executed exactly that statement, followed by the \<open>GRANT\<close> when \<open>is_admin\<close> is set. The
  first statement \<open>resourceUserUpdate\<close> executes is the same with \<open>ALTER USER\<close>, the
  resource id and the new password and roles (followed at most by one \<open>REVOKE\<close> or
  \<open>GRANT\<close>); an update that succeeds has executed exactly that statement when
  \<open>is_admin\<close>, \<open>roles\<close> or \<open>password\<close> changed (followed by the \<open>REVOKE\<close> or \<open>GRANT\<close>
  that the change of \<open>is_admin\<close> asks for), and no statement otherwise.
\<close>

theorem user_statements:
  "execs (trace (fst (resourceUserCreate env meta d)))
     \<in> {[],
        [''CREATE USER '' @ QuoteIdentifier (get_string d dbUsernameAttr) @ '' WITH PASSWORD ''
           @ [CHR 0x27] @ get_string d dbPasswordAttr @ [CHR 0x27] @ '' '' @ get_string d dbRolesAttr],
        [''CREATE USER '' @ QuoteIdentifier (get_string d dbUsernameAttr) @ '' WITH PASSWORD ''
           @ [CHR 0x27] @ get_string d dbPasswordAttr @ [CHR 0x27] @ '' '' @ get_string d dbRolesAttr,
         ''GRANT admin TO '' @ QuoteIdentifier (get_string d dbUsernameAttr) @ '' WITH ADMIN OPTION'']}
   \<and> (snd (resourceUserCreate env meta d) = Ok ()
        \<longrightarrow> execs (trace (fst (resourceUserCreate env meta d))) =
            (''CREATE USER '' @ QuoteIdentifier (get_string d dbUsernameAttr) @ '' WITH PASSWORD ''
               @ [CHR 0x27] @ get_string d dbPasswordAttr @ [CHR 0x27] @ '' ''
               @ get_string d dbRolesAttr)
            # (if get_bool d dbAdminAttr
               then [''GRANT admin TO '' @ QuoteIdentifier (get_string d dbUsernameAttr)
                       @ '' WITH ADMIN OPTION'']
               else []))
   \<and> execs (trace (fst (resourceUserUpdate env meta d)))
     \<in> {[],
        [''ALTER USER '' @ QuoteIdentifier (rd_id d) @ '' WITH PASSWORD ''
           @ [CHR 0x27] @ strs (rd_new d) dbPasswordAttr @ [CHR 0x27] @ '' ''
           @ strs (rd_new d) dbRolesAttr],
        [''ALTER USER '' @ QuoteIdentifier (rd_id d) @ '' WITH PASSWORD ''
           @ [CHR 0x27] @ strs (rd_new d) dbPasswordAttr @ [CHR 0x27] @ '' ''
           @ strs (rd_new d) dbRolesAttr,
         ''REVOKE admin from '' @ QuoteIdentifier (rd_id d)],
        [''ALTER USER '' @ QuoteIdentifier (rd_id d) @ '' WITH PASSWORD ''
           @ [CHR 0x27] @ strs (rd_new d) dbPasswordAttr @ [CHR 0x27] @ '' ''
           @ strs (rd_new d) dbRolesAttr,
         ''GRANT admin to '' @ QuoteIdentifier (rd_id d) @ '' WITH ADMIN OPTION'']}
   \<and> (snd (resourceUserUpdate env meta d) = Ok ()
        \<longrightarrow> execs (trace (fst (resourceUserUpdate env meta d))) =
            (if HasChange d dbAdminAttr \<or> HasChange d dbRolesAttr \<or> HasChange d dbPasswordAttr
             then (''ALTER USER '' @ QuoteIdentifier (rd_id d) @ '' WITH PASSWORD ''
                     @ [CHR 0x27] @ strs (rd_new d) dbPasswordAttr @ [CHR 0x27] @ '' ''
                     @ strs (rd_new d) dbRolesAttr)
                  # (if bools (rd_old d) dbAdminAttr \<and> \<not> bools (rd_new d) dbAdminAttr
                     then [''REVOKE admin from '' @ QuoteIdentifier (rd_id d)]
                     else if \<not> bools (rd_old d) dbAdminAttr \<and> bools (rd_new d) dbAdminAttr
                     then [''GRANT admin to '' @ QuoteIdentifier (rd_id d) @ '' WITH ADMIN OPTION'']
                     else [])
             else []))"
  using issues_UserCreate [of d env meta] issues_UserUpdate [of d env meta]
    executed_UserCreate [of d env meta] executed_UserUpdate [of d env meta]
  by (simp only: issues_def executed_def create_user_stmts_def alter_user_stmts_def)

theorem user_statements_witness:
  "get_string ex_d dbUsernameAttr = ''bob'' \<and> get_string ex_d dbPasswordAttr = ''pw''
   \<and> get_string ex_d dbRolesAttr = ''LOGIN'' \<and> get_bool ex_d dbAdminAttr = False
   \<and> snd (resourceUserCreate ex_env ex_meta ex_d) = Ok ()
   \<and> execs (trace (fst (resourceUserCreate ex_env ex_meta ex_d))) =
       [''CREATE USER '' @ [CHR 0x22] @ ''bob'' @ [CHR 0x22] @ '' WITH PASSWORD '' @ [CHR 0x27]
          @ ''pw'' @ [CHR 0x27] @ '' LOGIN'']
   \<and> rd_id ex_d_changed = ''bob'' \<and> strs (rd_new ex_d_changed) dbPasswordAttr = ''pw2''
   \<and> strs (rd_new ex_d_changed) dbRolesAttr = ''LOGIN''
   \<and> HasChange ex_d_changed dbPasswordAttr
   \<and> bools (rd_old ex_d_changed) dbAdminAttr = False \<and> bools (rd_new ex_d_changed) dbAdminAttr = True
   \<and> snd (resourceUserUpdate ex_env ex_meta ex_d_changed) = Ok ()
   \<and> execs (trace (fst (resourceUserUpdate ex_env ex_meta ex_d_changed))) =
       [''ALTER USER '' @ [CHR 0x22] @ ''bob'' @ [CHR 0x22] @ '' WITH PASSWORD '' @ [CHR 0x27]
          @ ''pw2'' @ [CHR 0x27] @ '' LOGIN'',
        ''GRANT admin to '' @ [CHR 0x22] @ ''bob'' @ [CHR 0x22] @ '' WITH ADMIN OPTION'']"
  using user_statements [of ex_env ex_meta ex_d] user_statements [of ex_env ex_meta ex_d_changed]
  by (simp add: ex_result_UserCreate ex_result_UserUpdate ex_d_simps ex_d_changed_simps
        ex_QuoteIdentifier)

text \<open>
  C10. The claim: when the connection fails, the data source read returns the
  connection error without calling a method of the connection. The code does not test
  the error: when \<open>pgx.Connect\<close> fails after the tunnel step, the run calls \<open>Ping\<close> on the
  \<open>nil\<close> connection and panics, the stop channel still open.
\<close>

theorem data_source_pings_nil_connection:
  assumes "pgx_connect env (strings_Replace (dns meta) ''<local_port>'' (get_string d argLocalPort) 1)
             = Some err"
    and "snd (tryPortForwardIfNeeded env meta (get_string d argLocalPort) (make_chans (init d))) = None"
  shows "snd (dataSourceDatabaseRead env meta d) = Panic NilPointerDereference
         \<and> last (trace (fst (dataSourceDatabaseRead env meta d))) = EvPing
         \<and> stopCh (fst (dataSourceDatabaseRead env meta d)) = Some ChOpen"
  using assms unfolding dataSourceDatabaseRead_def Let_def
  by (simp add: case_prod_beta frame)

theorem data_source_pings_nil_connection_witness:
  "pgx_connect ex_env_refused
      (strings_Replace (dns ex_meta) ''<local_port>'' (get_string ex_d argLocalPort) 1)
     = Some ''connection refused''
   \<and> snd (tryPortForwardIfNeeded ex_env_refused ex_meta (get_string ex_d argLocalPort)
            (make_chans (init ex_d))) = None
   \<and> snd (dataSourceDatabaseRead ex_env_refused ex_meta ex_d) = Panic NilPointerDereference
   \<and> last (trace (fst (dataSourceDatabaseRead ex_env_refused ex_meta ex_d))) = EvPing"
proof -
  have a: "pgx_connect ex_env_refused
      (strings_Replace (dns ex_meta) ''<local_port>'' (get_string ex_d argLocalPort) 1)
     = Some ''connection refused''"
    by (simp add: ex_env_refused_simps)
  have b: "snd (tryPortForwardIfNeeded ex_env_refused ex_meta (get_string ex_d argLocalPort)
            (make_chans (init ex_d))) = None"
    by (simp add: ex_tunnel_refused)
  from data_source_pings_nil_connection [OF a b] a b show ?thesis by simp
qed

end
